theory Spec2Isabelle
  imports Complex_Main
begin

section \<open>Tensors and floating-point values\<close>

text \<open>
  A rank-2 tensor of shape \<open>[batch_size, dim]\<close> is the list of its rows. A float is a real
  number or NaN: \<open>None\<close> is NaN, which every arithmetic operation propagates. Rounding,
  overflow and underflow of the 32-bit floats are not modelled. The only NaN sources of the
  kernel code are the divisions \<open>0 / 0\<close>: the mean of a tensor that has no element, and a
  zero squared distance over a zero scale.
\<close>

type_synonym tensor2 = "real list list"
type_synonym flt = "real option"
type_synonym kmatrix = "flt list list"

definition square :: "real \<Rightarrow> real" where
  "square a = a * a"

text \<open>\<open>K.shape(x)[1]\<close>. It is read only where \<open>x\<close> has a row.\<close>

definition shape1 :: "tensor2 \<Rightarrow> nat" where
  "shape1 x = (case x of [] \<Rightarrow> 0 | r # _ \<Rightarrow> length r)"

text \<open>\<open>K.mean\<close> along one axis: the sum over the count; \<open>0 / 0\<close> is NaN.\<close>

definition mean_axis :: "real list \<Rightarrow> flt" where
  "mean_axis vs = (if vs = [] then None else Some (sum_list vs / real (length vs)))"

text \<open>
  \<open>K.mean\<close> and \<open>tf.reduce_mean\<close> over all entries of a kernel matrix: NaN when an entry
  is NaN or when the matrix has no entry.
\<close>

definition reduce_mean :: "kmatrix \<Rightarrow> flt" where
  "reduce_mean m =
     (case those (concat m) of
        None \<Rightarrow> None
      | Some vs \<Rightarrow> mean_axis vs)"

section \<open>Kernels\<close>

datatype kernel = Rbf | Raphy | MultiScaleRbf | OtherKernel

text \<open>
  \<open>K.tile(K.reshape(x, [x_size, 1, dim]), [1, y_size, 1])\<close>: entry \<open>(i, j)\<close> is row \<open>i\<close> of
  \<open>x\<close>; \<open>K.tile(K.reshape(y, [1, y_size, dim]), [x_size, 1, 1])\<close>: entry \<open>(i, j)\<close> is row
  \<open>j\<close> of \<open>y\<close>.
\<close>

definition tile_x :: "tensor2 \<Rightarrow> nat \<Rightarrow> real list list list" where
  "tile_x x y_size = map (\<lambda>r. replicate y_size r) x"

definition tile_y :: "tensor2 \<Rightarrow> nat \<Rightarrow> real list list list" where
  "tile_y y x_size = replicate x_size y"

text \<open>The branch \<open>kernel == "rbf"\<close>.\<close>

definition rbf_kernel :: "tensor2 \<Rightarrow> tensor2 \<Rightarrow> kmatrix" where
  "rbf_kernel x y =
     (let x_size = length x;
          y_size = length y;
          dim = shape1 x;
          tiled_x = tile_x x y_size;
          tiled_y = tile_y y x_size
      in map2 (\<lambda>rx ry.
           map2 (\<lambda>a b.
             map_option (\<lambda>m. exp (- m / real dim))
               (mean_axis (map2 (\<lambda>u v. square (u - v)) a b))) rx ry)
         tiled_x tiled_y)"

text \<open>\<open>squared_distance\<close>: \<open>r - y\<close> broadcasts row \<open>i\<close> of \<open>x\<close> against every row of \<open>y\<close>.\<close>

definition squared_distance :: "tensor2 \<Rightarrow> tensor2 \<Rightarrow> real list list" where
  "squared_distance x y =
     map (\<lambda>r. map (\<lambda>yj. sum_list (map2 (\<lambda>u v. square (u - v)) r yj)) y) x"

text \<open>
  The branch \<open>kernel == 'raphy'\<close>. \<open>weights\<close> is the number of scales. For a scale \<open>0\<close> the
  quotient \<open>- d / 0\<close> is NaN at \<open>d = 0\<close> and minus infinity otherwise, whose exponential
  is \<open>0\<close>.
\<close>

definition raphy_term :: "real \<Rightarrow> real \<Rightarrow> real \<Rightarrow> flt" where
  "raphy_term weights d s =
     (if s ^ 2 = 0 then (if d = 0 then None else Some (weights * 0))
      else Some (weights * exp (- d / s ^ 2)))"

definition raphy_kernel :: "tensor2 \<Rightarrow> tensor2 \<Rightarrow> real list \<Rightarrow> kmatrix" where
  "raphy_kernel x y scales =
     (let squared_dist = squared_distance x y;
          weights = real (length scales)
      in map (map (\<lambda>d. map_option sum_list (those (map (raphy_term weights d) scales))))
           squared_dist)"

text \<open>The branch \<open>kernel == "multi-scale-rbf"\<close>.\<close>

definition sigmas :: "real list" where
  "sigmas = [1 / 10 ^ 6, 1 / 10 ^ 5, 1 / 10 ^ 4, 1 / 10 ^ 3, 1 / 10 ^ 2, 1 / 10, 1, 5, 10, 15,
             20, 25, 30, 35, 100, 10 ^ 3, 10 ^ 4, 10 ^ 5, 10 ^ 6]"

text \<open>\<open>K.dot\<close> of a \<open>[n, 1]\<close> and a \<open>[1, m]\<close> matrix.\<close>

definition dot_outer :: "real list \<Rightarrow> real list \<Rightarrow> real list list" where
  "dot_outer col row = map (\<lambda>b. map (\<lambda>d. b * d) row) col"

text \<open>\<open>tf.reduce_sum(t, 0)\<close> of a matrix whose rows have \<open>m\<close> entries.\<close>

definition reduce_sum0 :: "nat \<Rightarrow> real list list \<Rightarrow> real list" where
  "reduce_sum0 m t = foldr (map2 (+)) t (replicate m 0)"

text \<open>\<open>K.reshape(v, [n, m])\<close> of a vector of \<open>n * m\<close> entries.\<close>

definition reshape2 :: "nat \<Rightarrow> nat \<Rightarrow> 'a list \<Rightarrow> 'a list list" where
  "reshape2 n m v = map (\<lambda>i. take m (drop (i * m) v)) [0..<n]"

definition multi_scale_rbf_kernel :: "tensor2 \<Rightarrow> tensor2 \<Rightarrow> kmatrix" where
  "multi_scale_rbf_kernel x y =
     (let beta = map (\<lambda>s. 1 / (2 * s)) sigmas;
          distances = squared_distance x y;
          flat = concat distances;
          s = dot_outer beta flat;
          summed = reduce_sum0 (length flat) (map (map (\<lambda>v. exp (- v))) s)
      in map (map (\<lambda>v. Some (v / real (length sigmas))))
           (reshape2 (length x) (length y) summed))"

text \<open>
  \<open>RCVAE.compute_kernel\<close> (and \<open>RCCVAE.compute_kernel\<close>, the same text). A kernel name that
  no branch tests falls off the end of the function, which returns Python's \<open>None\<close>.
\<close>

definition compute_kernel :: "tensor2 \<Rightarrow> tensor2 \<Rightarrow> kernel \<Rightarrow> real list \<Rightarrow> kmatrix option" where
  "compute_kernel x y k scales =
     (if k = Rbf then Some (rbf_kernel x y)
      else if k = Raphy then Some (raphy_kernel x y scales)
      else if k = MultiScaleRbf then Some (multi_scale_rbf_kernel x y)
      else None)"

text \<open>\<open>RCVAEMultiTF.compute_kernel\<close>: it has no \<open>raphy\<close> branch.\<close>

definition compute_kernel_tf :: "tensor2 \<Rightarrow> tensor2 \<Rightarrow> kernel \<Rightarrow> kmatrix option" where
  "compute_kernel_tf x y k =
     (if k = Rbf then Some (rbf_kernel x y)
      else if k = MultiScaleRbf then Some (multi_scale_rbf_kernel x y)
      else None)"

text \<open>A \<open>[n, d]\<close> tensor: every row has \<open>d\<close> entries.\<close>

definition tensor_dim :: "nat \<Rightarrow> tensor2 \<Rightarrow> bool" where
  "tensor_dim d x = list_all (\<lambda>r. length r = d) x"

section \<open>Maximum mean discrepancy\<close>

datatype error =
    ValueError
  | InvalidArgumentError
  | ValidDataException
  | OSError
  | NotFoundError
  | ZeroDivisionError

text \<open>Float arithmetic: NaN in, NaN out.\<close>

definition flt_add :: "flt \<Rightarrow> flt \<Rightarrow> flt" where
  "flt_add a b = (case a of None \<Rightarrow> None | Some u \<Rightarrow> map_option (\<lambda>v. u + v) b)"

definition flt_sub :: "flt \<Rightarrow> flt \<Rightarrow> flt" where
  "flt_sub a b = (case a of None \<Rightarrow> None | Some u \<Rightarrow> map_option (\<lambda>v. u - v) b)"

definition flt_mul :: "flt \<Rightarrow> flt \<Rightarrow> flt" where
  "flt_mul a b = (case a of None \<Rightarrow> None | Some u \<Rightarrow> map_option (\<lambda>v. u * v) b)"

text \<open>
  \<open>RCVAE.compute_mmd\<close> (and \<open>RCCVAE.compute_mmd\<close>). The mean of Python's \<open>None\<close> raises.
\<close>

definition compute_mmd :: "tensor2 \<Rightarrow> tensor2 \<Rightarrow> kernel \<Rightarrow> real list \<Rightarrow> error + flt" where
  "compute_mmd x y k scales =
     (case compute_kernel x x k scales of None \<Rightarrow> Inl ValueError | Some x_kernel \<Rightarrow>
      case compute_kernel y y k scales of None \<Rightarrow> Inl ValueError | Some y_kernel \<Rightarrow>
      case compute_kernel x y k scales of None \<Rightarrow> Inl ValueError | Some xy_kernel \<Rightarrow>
        Inr (flt_sub (flt_add (reduce_mean x_kernel) (reduce_mean y_kernel))
               (flt_mul (Some 2) (reduce_mean xy_kernel))))"

text \<open>\<open>RCVAEMultiTF.compute_mmd\<close>.\<close>

definition compute_mmd_tf :: "tensor2 \<Rightarrow> tensor2 \<Rightarrow> kernel \<Rightarrow> error + flt" where
  "compute_mmd_tf x y k =
     (case compute_kernel_tf x x k of None \<Rightarrow> Inl ValueError | Some x_kernel \<Rightarrow>
      case compute_kernel_tf y y k of None \<Rightarrow> Inl ValueError | Some y_kernel \<Rightarrow>
      case compute_kernel_tf x y k of None \<Rightarrow> Inl ValueError | Some xy_kernel \<Rightarrow>
        Inr (flt_sub (flt_add (reduce_mean x_kernel) (reduce_mean y_kernel))
               (flt_mul (Some 2) (reduce_mean xy_kernel))))"

section \<open>Partitioning a batch by its labels\<close>

text \<open>
  \<open>tf.dynamic_partition(data, partitions, num_partitions)\<close>: output \<open>i\<close> holds, in their
  order, the rows of \<open>data\<close> whose partition index is \<open>i\<close>. The operation wants one index
  for each row, every index in \<open>[0, num_partitions)\<close>, and at least one partition.
\<close>

definition dynamic_partition :: "'a list \<Rightarrow> int list \<Rightarrow> nat \<Rightarrow> error + 'a list list" where
  "dynamic_partition data partitions num_partitions =
     (if num_partitions = 0 then Inl InvalidArgumentError
      else if length partitions \<noteq> length data then Inl InvalidArgumentError
      else if list_ex (\<lambda>p. p < 0 \<or> int num_partitions \<le> p) partitions
        then Inl InvalidArgumentError
      else Inr (map (\<lambda>i. map fst (filter (\<lambda>dp. snd dp = int i) (zip data partitions)))
                  [0..<num_partitions]))"

text \<open>\<open>K.cast(v, 'int32')\<close> rounds a float towards zero.\<close>

definition cast_int32 :: "real \<Rightarrow> int" where
  "cast_int32 v = (if 0 \<le> v then \<lfloor>v\<rfloor> else \<lceil>v\<rceil>)"

section \<open>The dense model \<open>RCVAE\<close>\<close>

text \<open>
  The fields of an \<open>RCVAE\<close> object that the loss, the training call and the persistence
  read. A Keras model (its layers and weights) is a value of the type \<open>'w\<close>.
\<close>

record 'w rcvae =
  beta :: real
  conditions :: "string list option"
  kernel_method :: kernel
  model_to_use :: string
  rae_model :: 'w
  encoder_model :: 'w
  decoder_model :: 'w

text \<open>
  \<open>mmd_loss\<close> of \<open>RCVAE._loss_function\<close> (\<open>RCCVAE\<close> has the same lines): the batch is
  always cut in two.
\<close>

definition mmd_loss :: "('w, 'z) rcvae_scheme \<Rightarrow> real list \<Rightarrow> tensor2 \<Rightarrow> error + flt" where
  "mmd_loss self real_labels y_pred =
     (let real_labels = map cast_int32 real_labels
      in case dynamic_partition y_pred real_labels 2 of
           Inl e \<Rightarrow> Inl e
         | Inr parts \<Rightarrow>
             (case parts of
                [source_mmd, dest_mmd] \<Rightarrow>
                  (case compute_mmd source_mmd dest_mmd (kernel_method self) [] of
                     Inl e \<Rightarrow> Inl e
                   | Inr loss \<Rightarrow> Inr (flt_mul (Some (beta self)) loss))
              | _ \<Rightarrow> Inl ValueError))"

subsection \<open>Persistence\<close>

text \<open>The model directory: a file path holds a saved model or nothing.\<close>

type_synonym 'w files = "string \<rightharpoonup> 'w"

text \<open>\<open>os.path.join\<close> of two components on a POSIX system.\<close>

definition path_join :: "string \<Rightarrow> string \<Rightarrow> string" where
  "path_join a b =
     (if b \<noteq> [] \<and> hd b = CHR ''/'' then b
      else if a = [] \<or> last a = CHR ''/'' then a @ b
      else a @ ''/'' @ b)"

text \<open>A call that raises leaves the state it had reached; a call that returns, too.\<close>

datatype 's outcome = Raised error 's | Returned 's

text \<open>\<open>keras.models.load_model\<close>: a missing file raises.\<close>

definition load_model :: "'w files \<Rightarrow> string \<Rightarrow> error + 'w" where
  "load_model fs p = (case fs p of None \<Rightarrow> Inl OSError | Some w \<Rightarrow> Inr w)"

text \<open>\<open>RCVAE.restore_model\<close>; compiling the loss again changes no weight.\<close>

definition restore_model :: "'w rcvae \<Rightarrow> 'w files \<Rightarrow> 'w rcvae outcome" where
  "restore_model self fs =
     (case load_model fs (path_join (model_to_use self) ''mmd_ae.h5'') of
        Inl e \<Rightarrow> Raised e self
      | Inr m \<Rightarrow>
     (let self = self\<lparr>rae_model := m\<rparr>
      in case load_model fs (path_join (model_to_use self) ''encoder.h5'') of
        Inl e \<Rightarrow> Raised e self
      | Inr m \<Rightarrow>
     (let self = self\<lparr>encoder_model := m\<rparr>
      in case load_model fs (path_join (model_to_use self) ''decoder.h5'') of
        Inl e \<Rightarrow> Raised e self
      | Inr m \<Rightarrow> Returned (self\<lparr>decoder_model := m\<rparr>))))"

text \<open>\<open>RCVAE.to_latent\<close>, for the forward pass \<open>predict\<close> of a Keras model.\<close>

definition to_latent :: "('w \<Rightarrow> 'x \<Rightarrow> 'l) \<Rightarrow> 'w rcvae \<Rightarrow> 'x \<Rightarrow> 'l" where
  "to_latent predict self data = predict (encoder_model self) data"

text \<open>
  \<open>RCVAE.train\<close>. \<open>fit\<close> is \<open>rae_model.fit\<close> with its callbacks: from the training data,
  the validation data when there is one and the number of epochs it gives the object with
  its trained models. The state is the object and the files.
\<close>

definition train ::
  "('d \<Rightarrow> 'd option \<Rightarrow> nat \<Rightarrow> 'w rcvae \<Rightarrow> 'w rcvae) \<Rightarrow> ('d \<Rightarrow> 'd) \<Rightarrow>
   'w rcvae \<times> 'w files \<Rightarrow> 'd \<Rightarrow> bool \<Rightarrow> 'd option \<Rightarrow> nat \<Rightarrow> bool \<Rightarrow> bool \<Rightarrow>
   ('w rcvae \<times> 'w files) outcome" where
  "train fit shuffle_data st train_data use_validation valid_data n_epochs shuffle save =
     (if use_validation \<and> valid_data = None then Raised ValidDataException st
      else
        let self = fst st; fs = snd st;
            train_data = (if shuffle then shuffle_data train_data else train_data);
            self = (if use_validation
                    then fit train_data
                           (if shuffle then map_option shuffle_data valid_data else valid_data)
                           n_epochs self
                    else fit train_data None n_epochs self)
        in if save
           then Returned (self,
                  fs(path_join (model_to_use self) ''mmd_rae.h5'' \<mapsto> rae_model self,
                     path_join (model_to_use self) ''encoder.h5'' \<mapsto> encoder_model self,
                     path_join (model_to_use self) ''decoder.h5'' \<mapsto> decoder_model self))
           else Returned (self, fs))"

subsection \<open>The convolutional model \<open>RCCVAE\<close>\<close>

text \<open>
  \<open>RCCVAE.restore_model\<close> and the end of \<open>RCCVAE.train\<close>, on the same fields (the full model
  is \<open>cvae_model\<close> there): both name the full model's file \<open>mmd_cvae.h5\<close>.
\<close>

definition restore_model_rccvae :: "'w rcvae \<Rightarrow> 'w files \<Rightarrow> 'w rcvae outcome" where
  "restore_model_rccvae self fs =
     (case load_model fs (path_join (model_to_use self) ''mmd_cvae.h5'') of
        Inl e \<Rightarrow> Raised e self
      | Inr m \<Rightarrow>
     (let self = self\<lparr>rae_model := m\<rparr>
      in case load_model fs (path_join (model_to_use self) ''encoder.h5'') of
        Inl e \<Rightarrow> Raised e self
      | Inr m \<Rightarrow>
     (let self = self\<lparr>encoder_model := m\<rparr>
      in case load_model fs (path_join (model_to_use self) ''decoder.h5'') of
        Inl e \<Rightarrow> Raised e self
      | Inr m \<Rightarrow> Returned (self\<lparr>decoder_model := m\<rparr>))))"

definition save_rccvae :: "'w rcvae \<Rightarrow> 'w files \<Rightarrow> 'w files" where
  "save_rccvae self fs =
     fs(path_join (model_to_use self) ''mmd_cvae.h5'' \<mapsto> rae_model self,
        path_join (model_to_use self) ''encoder.h5'' \<mapsto> encoder_model self,
        path_join (model_to_use self) ''decoder.h5'' \<mapsto> decoder_model self)"

section \<open>The multi-condition model \<open>RCVAEMultiTF\<close>\<close>

text \<open>\<open>tf.argmax\<close> along axis 1: the index of the first largest entry of a row.\<close>

definition argmax :: "real list \<Rightarrow> int" where
  "argmax r = int (length (takeWhile (\<lambda>v. v \<noteq> Max (set r)) r))"

text \<open>
  The MMD part of \<open>RCVAEMultiTF._loss_function\<close>, for the coefficient \<open>beta\<close>, the kernel
  and the number of conditions of the object, on the activations \<open>mmd_hl\<close> and the one-hot
  rows \<open>decoder_labels\<close> of a batch. \<open>add_loss\<close> is the statement \<open>loss += term\<close>, where
  building the term may raise.
\<close>

definition add_loss :: "error + flt \<Rightarrow> error + flt \<Rightarrow> error + flt" where
  "add_loss loss term =
     (case loss of
        Inl e \<Rightarrow> Inl e
      | Inr l \<Rightarrow> (case term of Inl e \<Rightarrow> Inl e | Inr v \<Rightarrow> Inr (flt_add l v)))"

definition mmd_loss_tf ::
  "real \<Rightarrow> kernel \<Rightarrow> nat \<Rightarrow> tensor2 \<Rightarrow> real list list \<Rightarrow> error + flt" where
  "mmd_loss_tf beta_coef kernel_name n_conditions mmd_hl decoder_labels =
     (let real_labels = map argmax decoder_labels
      in case dynamic_partition mmd_hl real_labels n_conditions of
           Inl e \<Rightarrow> Inl e
         | Inr conditions_mmd \<Rightarrow>
             (case fold (\<lambda>i. fold (\<lambda>j loss.
                      add_loss loss
                        (compute_mmd_tf (conditions_mmd ! j) (conditions_mmd ! (j + 1))
                           kernel_name))
                    [0..<i])
                   [0..<length conditions_mmd] (Inr (Some 0)) of
                Inl e \<Rightarrow> Inl e
              | Inr loss \<Rightarrow> Inr (flt_mul (Some beta_coef) loss)))"

subsection \<open>Training\<close>

text \<open>
  The variables of the TensorFlow session are the weights (with the optimizer's slots), of
  type \<open>'w\<close>, and the global step. The object holds its session and the checkpoint file at
  \<open>model_to_use\<close>, which the saver writes and restores whole.
\<close>

record 'w session =
  weights :: 'w
  global_step :: nat

record 'w multi_tf =
  sess :: "'w session"
  checkpoint :: "'w session option"

text \<open>
  What \<open>sess.run\<close> computes on a mini-batch of labelled samples: a run of \<open>self.solver\<close>
  is one optimizer step on the weights, a run of \<open>self.trvae_loss\<close> alone changes nothing.
\<close>

record ('x, 'w) graph =
  solver :: "'x list \<Rightarrow> 'w \<Rightarrow> 'w"
  trvae_loss :: "'x list \<Rightarrow> 'w \<Rightarrow> real"

text \<open>
  The arguments of \<open>RCVAEMultiTF.train\<close>. The samples carry their encoded labels:
  \<open>label_encoder\<close> is not part of these sources and is taken to return. A batch size is a
  natural number.
\<close>

record 'x train_args =
  train_data :: "'x list"
  use_validation :: bool
  valid_data :: "'x list option"
  n_epochs :: nat
  batch_size :: nat
  early_stop_limit :: nat
  threshold :: real
  initial_run :: bool
  shuffle :: bool
  verbose :: bool

text \<open>\<open>range(0, n, step)\<close>; a step \<open>0\<close> raises.\<close>

definition range_step :: "nat \<Rightarrow> nat \<Rightarrow> error + nat list" where
  "range_step n step =
     (if step = 0 then Inl ValueError
      else Inr (map (\<lambda>k. k * step) [0..<(n + step - 1) div step]))"

text \<open>The slice \<open>data[lower:upper]\<close> for \<open>upper = min(lower + batch_size, len(data))\<close>.\<close>

definition mini_batch :: "'x list \<Rightarrow> nat \<Rightarrow> nat \<Rightarrow> 'x list" where
  "mini_batch data lower bsize =
     (let upper = min (lower + bsize) (length data)
      in take (upper - lower) (drop lower data))"

record 'w loop_state =
  self :: "'w multi_tf"
  loss_hist :: "real list"
  patience_cnt :: nat

datatype 'w step = Continue "'w loop_state" | Break "'w loop_state" | Raise error "'w loop_state"

text \<open>\<open>self.saver.save(self.sess, self.model_to_use)\<close>.\<close>

definition saver_save :: "'w multi_tf \<Rightarrow> 'w multi_tf" where
  "saver_save m = m\<lparr>checkpoint := Some (sess m)\<rparr>"

text \<open>\<open>self.saver.restore(self.sess, self.model_to_use)\<close>; without a checkpoint it raises.\<close>

definition saver_restore :: "'w multi_tf \<Rightarrow> error + 'w multi_tf" where
  "saver_restore m =
     (case checkpoint m of None \<Rightarrow> Inl NotFoundError | Some c \<Rightarrow> Inr (m\<lparr>sess := c\<rparr>))"

text \<open>
  The first inner loop of an epoch: one run of the solver on each mini-batch of the
  shuffled training samples \<open>td\<close>, in order.
\<close>

definition train_batches ::
  "('x, 'w) graph \<Rightarrow> 'x train_args \<Rightarrow> 'x list \<Rightarrow> 'w \<Rightarrow> error + 'w" where
  "train_batches g args td w =
     (case range_step (length td) (batch_size args) of
        Inl e \<Rightarrow> Inl e
      | Inr lowers \<Rightarrow>
          Inr (fold (\<lambda>lower w. solver g (mini_batch td lower (batch_size args)) w) lowers w))"

text \<open>
  The second inner loop: the loss of each mini-batch of the validation samples, summed, and
  the value \<open>valid_loss / valid_data.shape[0]\<close> that is appended to \<open>loss_hist\<close>. Without a
  validation sample the sum is still Python's integer \<open>0\<close> and the division raises.
\<close>

definition valid_batches ::
  "('x, 'w) graph \<Rightarrow> 'x train_args \<Rightarrow> 'x list \<Rightarrow> 'w \<Rightarrow> error + real" where
  "valid_batches g args vdata w =
     (case range_step (length vdata) (batch_size args) of
        Inl e \<Rightarrow> Inl e
      | Inr vlowers \<Rightarrow>
          (let valid_loss =
                 fold (\<lambda>lower l. l + trvae_loss g (mini_batch vdata lower (batch_size args)) w)
                   vlowers 0
           in if length vdata = 0 then Inl ZeroDivisionError
              else Inr (valid_loss / real (length vdata))))"

text \<open>
  The end of an epoch with validation, for the value \<open>v\<close> to append: the patience counter,
  the early stop with its checkpoint, and the printed line. The line divides the summed
  training loss by \<open>len(td) // batch_size\<close>; that raises only when the sum is still Python's
  integer \<open>0\<close>, which is when \<open>td\<close> is empty. Inside \<open>train\<close> the history has \<open>it\<close> entries
  when epoch \<open>it\<close> starts, so both reads of the history are in range.
\<close>

definition early_stopping ::
  "'x train_args \<Rightarrow> 'x list \<Rightarrow> nat \<Rightarrow> real \<Rightarrow> 'w loop_state \<Rightarrow> 'w step" where
  "early_stopping args td it v s =
     (let patience = early_stop_limit args;
          min_delta = threshold args;
          hist = loss_hist s @ [v];
          cnt = (if it > 0 \<and> hist ! (it - 1) - hist ! it > min_delta then 0
                 else patience_cnt s + 1);
          s = s\<lparr>loss_hist := hist, patience_cnt := cnt\<rparr>
      in if cnt > patience then Break (s\<lparr>self := saver_save (self s)\<rparr>)
         else if verbose args \<and> length td = 0 then Raise ZeroDivisionError s
         else Continue s)"

text \<open>
  The body of the epoch loop, for the shuffled training samples \<open>td\<close> and the validation
  samples \<open>vd\<close> (\<open>None\<close> without validation).
\<close>

definition epoch_body ::
  "('x, 'w) graph \<Rightarrow> 'x train_args \<Rightarrow> 'x list \<Rightarrow> 'x list option \<Rightarrow> nat \<Rightarrow>
   'w loop_state \<Rightarrow> 'w step" where
  "epoch_body g args td vd it s =
     (let m = self s;
          m = m\<lparr>sess := (sess m)\<lparr>global_step := global_step (sess m) + 1\<rparr>\<rparr>;
          s = s\<lparr>self := m\<rparr>
      in case train_batches g args td (weights (sess m)) of
           Inl e \<Rightarrow> Raise e s
         | Inr w \<Rightarrow>
        (let m = m\<lparr>sess := (sess m)\<lparr>weights := w\<rparr>\<rparr>;
             s = s\<lparr>self := m\<rparr>
         in case vd of
              Some vdata \<Rightarrow>
                (case valid_batches g args vdata w of
                   Inl e \<Rightarrow> Raise e s
                 | Inr v \<Rightarrow> early_stopping args td it v s)
            | None \<Rightarrow>
                if verbose args \<and> length td = 0 then Raise ZeroDivisionError s
                else Continue s))"

text \<open>\<open>for it in range(n_epochs)\<close>, from epoch \<open>it\<close> with \<open>n\<close> epochs left.\<close>

datatype 'w loop_end =
    Exhausted "'w loop_state"
  | Stopped nat "'w loop_state"
  | Failed error "'w loop_state"

fun epochs ::
  "('x, 'w) graph \<Rightarrow> 'x train_args \<Rightarrow> 'x list \<Rightarrow> 'x list option \<Rightarrow> nat \<Rightarrow> nat \<Rightarrow>
   'w loop_state \<Rightarrow> 'w loop_end" where
  "epochs g args td vd it 0 s = Exhausted s"
| "epochs g args td vd it (Suc n) s =
     (case epoch_body g args td vd it s of
        Continue s' \<Rightarrow> epochs g args td vd (Suc it) n s'
      | Break s' \<Rightarrow> Stopped it s'
      | Raise e s' \<Rightarrow> Failed e s')"

text \<open>\<open>RCVAEMultiTF.train\<close>, for the external \<open>shuffle_data\<close>.\<close>

definition train_tf ::
  "('x, 'w) graph \<Rightarrow> ('x list \<Rightarrow> 'x list) \<Rightarrow> 'w multi_tf \<Rightarrow> 'x train_args \<Rightarrow>
   'w multi_tf outcome" where
  "train_tf g shuffle_data m args =
     (let m = (if initial_run args then m\<lparr>sess := (sess m)\<lparr>global_step := 0\<rparr>\<rparr> else m)
      in case (if \<not> initial_run args then saver_restore m else Inr m) of
           Inl e \<Rightarrow> Raised e m
         | Inr m \<Rightarrow>
        (let td = (if shuffle args then shuffle_data (train_data args) else train_data args)
         in if use_validation args \<and> valid_data args = None
            then Raised ValidDataException m
            else
              case epochs g args td (if use_validation args then valid_data args else None)
                     0 (n_epochs args)
                     \<lparr>self = m, loss_hist = [], patience_cnt = 0\<rparr> of
                Exhausted s \<Rightarrow> Returned (saver_save (self s))
              | Stopped it s \<Rightarrow> Returned (saver_save (self s))
              | Failed e s \<Rightarrow> Raised e (self s)))"

section \<open>Terms of the properties\<close>

text \<open>
  The inputs on which a kernel has no NaN entry: vectors of a positive width for \<open>rbf\<close>
  (the mean over the feature axis), no zero scale for \<open>raphy\<close>.
\<close>

definition kernel_defined :: "kernel \<Rightarrow> nat \<Rightarrow> real list \<Rightarrow> bool" where
  "kernel_defined k d scales =
     (k = Rbf \<and> 0 < d \<or> k = Raphy \<and> list_all (\<lambda>s. s \<noteq> 0) scales \<or> k = MultiScaleRbf)"

text \<open>
  The mean over all entries of a kernel matrix, in the specification's words: the sum of
  the entries over their number.
\<close>

definition entries_mean :: "kmatrix \<Rightarrow> real" where
  "entries_mean K =
     (\<Sum>i<length K. \<Sum>j<length (K ! i). the (K ! i ! j)) / real (\<Sum>i<length K. length (K ! i))"

text \<open>
  The rows of a batch whose label, cast to an integer, is \<open>c\<close>, in the order of the batch.
\<close>

definition label_group :: "int \<Rightarrow> 'a list \<Rightarrow> real list \<Rightarrow> 'a list" where
  "label_group c rows labels =
     map (\<lambda>i. rows ! i) (filter (\<lambda>i. cast_int32 (labels ! i) = c) [0..<length rows])"

text \<open>
  The sum of a list of floats.
\<close>

definition flt_sum :: "flt list \<Rightarrow> flt" where
  "flt_sum vs = foldr flt_add vs (Some 0)"

text \<open>
  The rows of a batch whose one-hot label row has its largest entry at index \<open>c\<close>, in the order of
  the batch.
\<close>

definition argmax_group :: "nat \<Rightarrow> 'a list \<Rightarrow> real list list \<Rightarrow> 'a list" where
  "argmax_group c rows labels =
     map (\<lambda>i. rows ! i) (filter (\<lambda>i. argmax (labels ! i) = int c) [0..<length rows])"

text \<open>
  The weights after \<open>k\<close> epochs that ran without an error, from the weights \<open>w0\<close>.
\<close>

definition epoch_weights ::
  "('x, 'w) graph \<Rightarrow> 'x train_args \<Rightarrow> 'x list \<Rightarrow> 'w \<Rightarrow> nat \<Rightarrow> 'w" where
  "epoch_weights g args td w0 k = ((\<lambda>w. projr (train_batches g args td w)) ^^ k) w0"

text \<open>
  The validation loss that epoch \<open>k\<close> (counted from \<open>0\<close>) appends to \<open>loss_hist\<close>.
\<close>

definition epoch_valid_loss ::
  "('x, 'w) graph \<Rightarrow> 'x train_args \<Rightarrow> 'x list \<Rightarrow> 'x list \<Rightarrow> 'w \<Rightarrow> nat \<Rightarrow> real" where
  "epoch_valid_loss g args td vd w0 k =
     projr (valid_batches g args vd (epoch_weights g args td w0 (Suc k)))"

text \<open>
  The patience counter after an epoch, from the history with the epoch's loss appended.
\<close>

definition next_cnt :: "'x train_args \<Rightarrow> nat \<Rightarrow> real list \<Rightarrow> nat \<Rightarrow> nat" where
  "next_cnt args it hist cnt =
     (if it > 0 \<and> hist ! (it - 1) - hist ! it > threshold args then 0 else cnt + 1)"

text \<open>
  An example run: every epoch is one optimizer step that counts the weights up, and the
  validation loss is \<open>1\<close> after the first epoch and \<open>1 / 2\<close> after every later one, so the
  loss is constant from the second epoch on.
\<close>

definition plateau_graph :: "(unit, nat) graph" where
  "plateau_graph =
     \<lparr>solver = (\<lambda>b w. Suc w), trvae_loss = (\<lambda>b w. if w = 1 then 1 else 1 / 2)\<rparr>"

text \<open>
  The arguments of the example run: \<open>early_stop_limit = 20\<close>, \<open>threshold = 0.0025\<close>, 26 epochs.
\<close>

definition plateau_args :: "unit train_args" where
  "plateau_args =
     \<lparr>train_data = [()], use_validation = True, valid_data = Some [()], n_epochs = 26,
      batch_size = 32, early_stop_limit = 20, threshold = 25 / 10000, initial_run = True,
      shuffle = False, verbose = True\<rparr>"

text \<open>
  The object of the example run, before training.
\<close>

definition plateau_model :: "nat multi_tf" where
  "plateau_model = \<lparr>sess = \<lparr>weights = 0, global_step = 0\<rparr>, checkpoint = None\<rparr>"

text \<open>
  Example objects for a call of \<open>train\<close> that asks for validation and gives no validation
  data: a graph whose optimizer step counts the weights up,
\<close>

definition counting_graph :: "(unit, nat) graph" where
  "counting_graph = \<lparr>solver = (\<lambda>b w. Suc w), trvae_loss = (\<lambda>b w. 1)\<rparr>"

text \<open>
  the arguments of the call, with \<open>initial_run\<close> left open,
\<close>

definition unvalidated_args :: "bool \<Rightarrow> unit train_args" where
  "unvalidated_args first_run =
     \<lparr>train_data = [()], use_validation = True, valid_data = None, n_epochs = 25,
      batch_size = 32, early_stop_limit = 20, threshold = 25 / 10000,
      initial_run = first_run, shuffle = True, verbose = True\<rparr>"

text \<open>
  a multi-condition object that was trained before (weights \<open>0\<close>, global step \<open>9\<close>) and has
  a checkpoint with other weights,
\<close>

definition trained_model :: "nat multi_tf" where
  "trained_model =
     \<lparr>sess = \<lparr>weights = 0, global_step = 9\<rparr>,
      checkpoint = Some \<lparr>weights = 1, global_step = 5\<rparr>\<rparr>"

text \<open>
  and a dense object.
\<close>

definition dense_model :: "nat rcvae" where
  "dense_model =
     \<lparr>beta = 100, conditions = None, kernel_method = MultiScaleRbf, model_to_use = ''./'',
      rae_model = 0, encoder_model = 0, decoder_model = 0\<rparr>"

section \<open>The radial basis function kernel\<close>

lemma shape1_row:
  assumes "tensor_dim d x" "i < length x"
  shows "shape1 x = d"
  using assms by (cases x) (auto simp: shape1_def tensor_dim_def)

lemma rbf_kernel_length: "length (rbf_kernel x y) = length x"
  by (simp add: rbf_kernel_def tile_x_def tile_y_def)

lemma rbf_kernel_row_length:
  "i < length x \<Longrightarrow> length (rbf_kernel x y ! i) = length y"
  by (simp add: rbf_kernel_def tile_x_def tile_y_def)

lemma rbf_kernel_entry:
  assumes "i < length x" "j < length y"
  shows "rbf_kernel x y ! i ! j =
           map_option (\<lambda>m. exp (- m / real (shape1 x)))
             (mean_axis (map2 (\<lambda>u v. square (u - v)) (x ! i) (y ! j)))"
  using assms by (simp add: rbf_kernel_def tile_x_def tile_y_def)

lemma sum_list_map2_nth:
  assumes "length a = d" "length b = d"
  shows "sum_list (map2 f a b) = (\<Sum>k<d. f (a ! k) (b ! k))"
proof -
  have "sum_list (map2 f a b) = (\<Sum>k = 0..<length (map2 f a b). map2 f a b ! k)"
    by (rule sum_list_sum_nth)
  also have "\<dots> = (\<Sum>k<d. f (a ! k) (b ! k))"
    using assms by (auto simp: atLeast0LessThan intro!: sum.cong)
  finally show ?thesis .
qed

lemma tensor_dim_nth: "tensor_dim d x \<Longrightarrow> i < length x \<Longrightarrow> length (x ! i) = d"
  by (simp add: tensor_dim_def list_all_length)

lemma rbf_entry_formula:
  assumes "tensor_dim d x" "tensor_dim d y" "0 < d" "i < length x" "j < length y"
  shows "rbf_kernel x y ! i ! j =
           Some (exp (- ((\<Sum>k<d. (x ! i ! k - y ! j ! k)\<^sup>2) / real d) / real d))"
proof -
  have lx: "length (x ! i) = d" and ly: "length (y ! j) = d"
    using assms by (simp_all add: tensor_dim_nth)
  have ne: "map2 (\<lambda>u v. square (u - v)) (x ! i) (y ! j) \<noteq> []"
    using lx ly \<open>0 < d\<close> by (cases "x ! i"; cases "y ! j") auto
  have len: "length (map2 (\<lambda>u v. square (u - v)) (x ! i) (y ! j)) = d"
    using lx ly by simp
  have s: "sum_list (map2 (\<lambda>u v. square (u - v)) (x ! i) (y ! j)) =
             (\<Sum>k<d. (x ! i ! k - y ! j ! k)\<^sup>2)"
    using sum_list_map2_nth [OF lx ly, of "\<lambda>u v. square (u - v)"]
    by (simp add: square_def power2_eq_square)
  show ?thesis
    using assms ne len s shape1_row [OF assms(1) assms(4)]
    by (simp add: rbf_kernel_entry mean_axis_def)
qed

lemmas rbf_eval =
  compute_kernel_def compute_kernel_tf_def rbf_kernel_def tile_x_def tile_y_def shape1_def
  mean_axis_def square_def

lemma rbf_literal_same: "compute_kernel [[0, 0]] [[0, 0]] Rbf scales = Some [[Some 1]]"
  by (simp add: rbf_eval)

lemma rbf_literal_ones:
  "compute_kernel [[0, 0]] [[1, 1]] Rbf scales = Some [[Some (exp (- (1 / 2)))]]"
  by (simp add: rbf_eval)

text \<open>
  Claim C2, as the code has it. For tensors \<open>x\<close> and \<open>y\<close> of a common positive width \<open>d\<close>,
  \<open>compute_kernel(x, y, 'rbf')\<close> is, in both classes, the matrix with one row for each row
  of \<open>x\<close> and one column for each row of \<open>y\<close> whose entry \<open>(i, j)\<close> is the exponential of
  minus the mean squared difference of the rows \<open>x_i\<close> and \<open>y_j\<close> over \<open>d\<close>. For
  \<open>x = [[0, 0]]\<close> and \<open>y = [[0, 0]]\<close> the value is \<open>1\<close>; for \<open>x = [[0, 0]]\<close> and
  \<open>y = [[1, 1]]\<close> the mean squared difference is \<open>1\<close>, the width \<open>2\<close>, and the value
  \<open>exp (- 1 / 2)\<close>.
\<close>

theorem rbf_kernel_entrywise:
  assumes "tensor_dim d x" "tensor_dim d y" "0 < d" "i < length x" "j < length y"
  shows "compute_kernel x y Rbf scales = Some (rbf_kernel x y) \<and>
         compute_kernel_tf x y Rbf = Some (rbf_kernel x y) \<and>
         length (rbf_kernel x y) = length x \<and>
         length (rbf_kernel x y ! i) = length y \<and>
         rbf_kernel x y ! i ! j =
           Some (exp (- ((\<Sum>k<d. (x ! i ! k - y ! j ! k)\<^sup>2) / real d) / real d)) \<and>
         compute_kernel [[0, 0]] [[0, 0]] Rbf scales = Some [[Some 1]] \<and>
         compute_kernel [[0, 0]] [[1, 1]] Rbf scales = Some [[Some (exp (- (1 / 2)))]]"
proof -
  have "compute_kernel x y Rbf scales = Some (rbf_kernel x y)"
    and "compute_kernel_tf x y Rbf = Some (rbf_kernel x y)"
    by (simp_all add: compute_kernel_def compute_kernel_tf_def)
  moreover have "length (rbf_kernel x y ! i) = length y"
    using assms(4) by (rule rbf_kernel_row_length)
  ultimately show ?thesis
    using rbf_entry_formula [OF assms] rbf_kernel_length [of x y]
      rbf_literal_same [of scales] rbf_literal_ones [of scales]
    by blast
qed

theorem rbf_kernel_entrywise_witness:
  "tensor_dim 2 [[0, 0]] \<and> tensor_dim 2 [[1, 1]] \<and>
   compute_kernel [[0, 0]] [[1, 1]] Rbf [] = Some (rbf_kernel [[0, 0]] [[1, 1]]) \<and>
   rbf_kernel [[0, 0]] [[1, 1]] ! 0 ! 0 = Some (exp (- (1 / 2)))"
proof -
  have t: "tensor_dim 2 [[0, 0]]" "tensor_dim 2 [[1, 1]]"
    by (simp_all add: tensor_dim_def)
  have s: "(\<Sum>k<2. ([[0, 0]] ! 0 ! k - [[1, 1]] ! 0 ! k)\<^sup>2) = (2::real)"
    by (simp add: lessThan_Suc numeral_2_eq_2)
  show ?thesis
    using t rbf_kernel_entrywise [OF t, of 0 0 "[]"] s by simp
qed

text \<open>
  The value the claim gives for \<open>x = [[0, 0]]\<close> and \<open>y = [[1, 1]]\<close>, \<open>exp (- 1)\<close>, is not
  the code's.
\<close>

theorem rbf_kernel_literal_counterexample:
  "compute_kernel [[0, 0]] [[1, 1]] Rbf [] \<noteq> Some [[Some (exp (- 1))]]"
  by (simp add: rbf_eval)

section \<open>Kernel matrices and their means\<close>

lemma those_map_Some: "those (map Some xs) = Some xs"
  by (induction xs) simp_all

lemma concat_map_map: "concat (map (map f) D) = map f (concat D)"
  by (induction D) simp_all

lemma reduce_mean_Some: "reduce_mean (map (map Some) K) = mean_axis (concat K)"
  by (simp add: reduce_mean_def concat_map_map those_map_Some)

lemma rbf_kernel_rows:
  "rbf_kernel x y =
     map (\<lambda>r. map (\<lambda>yj. map_option (\<lambda>m. exp (- m / real (shape1 x)))
                           (mean_axis (map2 (\<lambda>u v. square (u - v)) r yj))) y) x"
  by (rule nth_equalityI)
     (auto simp: rbf_kernel_def tile_x_def tile_y_def intro!: nth_equalityI)

lemma reduce_sum0_outer:
  "reduce_sum0 (length flat) (map (map g) (dot_outer bs flat)) =
     map (\<lambda>d. sum_list (map (\<lambda>b. g (b * d)) bs)) flat"
proof (induction bs)
  case Nil
  show ?case by (simp add: reduce_sum0_def dot_outer_def map_replicate_const)
next
  case (Cons b bs)
  have "reduce_sum0 (length flat) (map (map g) (dot_outer (b # bs) flat)) =
          map2 (+) (map (\<lambda>d. g (b * d)) flat)
            (reduce_sum0 (length flat) (map (map g) (dot_outer bs flat)))"
    by (simp add: reduce_sum0_def dot_outer_def comp_def)
  also have "\<dots> = map (\<lambda>d. g (b * d) + sum_list (map (\<lambda>b. g (b * d)) bs)) flat"
    unfolding Cons.IH by (simp add: zip_map_map zip_same_conv_map)
  finally show ?case by simp
qed

lemma reshape2_map: "reshape2 n m (map f v) = map (map f) (reshape2 n m v)"
  by (simp add: reshape2_def take_map drop_map)

lemma reshape2_concat:
  assumes "length D = n" "list_all (\<lambda>r. length r = m) D"
  shows "reshape2 n m (concat D) = D"
  using assms
proof (induction D arbitrary: n)
  case Nil
  then show ?case by (simp add: reshape2_def)
next
  case (Cons r rs)
  then obtain n' where n: "n = Suc n'" and len: "length rs = n'" by auto
  have r: "length r = m" and rs: "list_all (\<lambda>r. length r = m) rs"
    using Cons.prems(2) by simp_all
  have "reshape2 (Suc n') m (concat (r # rs)) =
          take m (r @ concat rs) # map (\<lambda>i. take m (drop (Suc i * m) (r @ concat rs))) [0..<n']"
    by (simp add: reshape2_def upt_conv_Cons map_Suc_upt [symmetric] del: upt_Suc)
  also have "\<dots> = r # reshape2 n' m (concat rs)"
    using r by (simp add: reshape2_def)
  finally show ?case using Cons.IH [OF len rs] n by simp
qed

lemma multi_scale_rows:
  "multi_scale_rbf_kernel x y =
     map (map (\<lambda>d. Some (sum_list (map (\<lambda>s. exp (- (1 / (2 * s) * d))) sigmas)
                            / real (length sigmas))))
       (squared_distance x y)"
proof -
  have rect: "length (squared_distance x y) = length x"
    "list_all (\<lambda>r. length r = length y) (squared_distance x y)"
    by (simp_all add: squared_distance_def list_all_iff)
  show ?thesis
    unfolding multi_scale_rbf_kernel_def Let_def reduce_sum0_outer reshape2_map
      reshape2_concat [OF rect]
    by (simp add: comp_def)
qed

lemma rbf_values:
  assumes "tensor_dim d a" "tensor_dim d b" "0 < d"
  shows "rbf_kernel a b =
           map (map Some)
             (map (\<lambda>r. map (\<lambda>yj. exp (- (sum_list (map2 (\<lambda>u v. square (u - v)) r yj) / real d)
                                      / real d)) b) a)"
proof -
  have "mean_axis (map2 (\<lambda>u v. square (u - v)) r yj) =
          Some (sum_list (map2 (\<lambda>u v. square (u - v)) r yj) / real d)"
    if "r \<in> set a" "yj \<in> set b" for r yj
  proof -
    have "length r = d" "length yj = d"
      using that assms by (auto simp: tensor_dim_def list_all_iff)
    then show ?thesis using \<open>0 < d\<close> by (cases r; cases yj) (auto simp: mean_axis_def)
  qed
  moreover have "shape1 a = d" if "r \<in> set a" for r
    using that assms(1) by (cases a) (auto simp: shape1_def tensor_dim_def)
  ultimately show ?thesis
    unfolding rbf_kernel_rows by (auto simp: comp_def)
qed

lemma raphy_values:
  assumes "list_all (\<lambda>s. s \<noteq> 0) scales"
  shows "raphy_kernel a b scales =
           map (map Some)
             (map (map (\<lambda>d. sum_list (map (\<lambda>s. real (length scales) * exp (- d / s ^ 2)) scales)))
                (squared_distance a b))"
proof -
  have "those (map (raphy_term w d) scales) = Some (map (\<lambda>s. w * exp (- d / s ^ 2)) scales)"
    for w d
    using assms by (induction scales) (simp_all add: raphy_term_def)
  then show ?thesis
    by (simp add: raphy_kernel_def Let_def comp_def)
qed

lemma kernel_values:
  assumes "kernel_defined k d scales" "tensor_dim d a" "tensor_dim d b"
  shows "\<exists>V. compute_kernel a b k scales = Some (map (map Some) V) \<and>
             (k \<noteq> Raphy \<longrightarrow> compute_kernel_tf a b k = Some (map (map Some) V)) \<and>
             length V = length a \<and> list_all (\<lambda>r. length r = length b) V"
proof -
  consider "k = Rbf" "0 < d" | "k = Raphy" "list_all (\<lambda>s. s \<noteq> 0) scales" | "k = MultiScaleRbf"
    using assms(1) by (auto simp: kernel_defined_def)
  then show ?thesis
  proof cases
    case 1
    show ?thesis
      unfolding compute_kernel_def compute_kernel_tf_def 1(1) rbf_values [OF assms(2,3) 1(2)]
      by (intro exI [of _ "map (\<lambda>r. map (\<lambda>yj. exp (- (sum_list (map2 (\<lambda>u v. square (u - v)) r yj) / real d) / real d)) b) a"])
         (simp add: list_all_iff)
  next
    case 2
    show ?thesis
      unfolding compute_kernel_def 2(1) raphy_values [OF 2(2)]
      by (intro exI [of _ "map (map (\<lambda>d. sum_list (map (\<lambda>s. real (length scales) * exp (- d / s ^ 2)) scales))) (squared_distance a b)"])
         (simp add: list_all_iff squared_distance_def)
  next
    case 3
    show ?thesis
      unfolding compute_kernel_def compute_kernel_tf_def 3 multi_scale_rows
      by (intro exI [of _ "map (map (\<lambda>d. sum_list (map (\<lambda>s. exp (- (1 / (2 * s) * d))) sigmas) / real (length sigmas))) (squared_distance a b)"])
         (simp add: list_all_iff squared_distance_def comp_def)
  qed
qed

lemma sum_list_concat_rect:
  fixes V :: "real list list"
  shows "sum_list (concat V) = (\<Sum>i<length V. \<Sum>j<length (V ! i). V ! i ! j)"
proof -
  have "sum_list (concat V) = sum_list (map sum_list V)"
    by (induction V) simp_all
  also have "\<dots> = (\<Sum>i<length V. sum_list (V ! i))"
    by (simp add: sum_list_sum_nth atLeast0LessThan)
  also have "\<dots> = (\<Sum>i<length V. \<Sum>j<length (V ! i). V ! i ! j)"
    by (simp add: sum_list_sum_nth atLeast0LessThan)
  finally show ?thesis .
qed

lemma length_concat_sum: "length (concat V) = (\<Sum>i<length V. length (V ! i))"
  by (simp add: length_concat sum_list_sum_nth atLeast0LessThan)

lemma reduce_mean_values:
  assumes "V \<noteq> []" "list_all (\<lambda>r. length r = c) V" "0 < c"
  shows "reduce_mean (map (map Some) V) = Some (entries_mean (map (map Some) V))"
proof -
  obtain r rs where V: "V = r # rs" using assms(1) by (cases V) auto
  then have "r \<noteq> []" using assms(2,3) by auto
  then have ne: "concat V \<noteq> []" using V by simp
  have "entries_mean (map (map Some) V) = sum_list (concat V) / real (length (concat V))"
    by (simp add: entries_mean_def sum_list_concat_rect length_concat_sum)
  then show ?thesis
    using ne by (simp add: reduce_mean_Some mean_axis_def)
qed

lemma reduce_mean_kernel:
  assumes "kernel_defined k d scales" "tensor_dim d a" "tensor_dim d b" "a \<noteq> []" "b \<noteq> []"
  shows "reduce_mean (the (compute_kernel a b k scales)) =
           Some (entries_mean (the (compute_kernel a b k scales)))"
    and "compute_kernel a b k scales \<noteq> None"
    and "k \<noteq> Raphy \<Longrightarrow> compute_kernel_tf a b k = compute_kernel a b k scales"
proof -
  obtain V where V: "compute_kernel a b k scales = Some (map (map Some) V)"
    "k \<noteq> Raphy \<longrightarrow> compute_kernel_tf a b k = Some (map (map Some) V)"
    "length V = length a" "list_all (\<lambda>r. length r = length b) V"
    using kernel_values [OF assms(1-3)] by blast
  have "V \<noteq> []" "0 < length b" using V(3) assms(4,5) by auto
  from reduce_mean_values [OF this(1) V(4) this(2)]
  show "reduce_mean (the (compute_kernel a b k scales)) =
           Some (entries_mean (the (compute_kernel a b k scales)))"
    by (simp add: V(1))
  show "compute_kernel a b k scales \<noteq> None" by (simp add: V(1))
  show "compute_kernel_tf a b k = compute_kernel a b k scales" if "k \<noteq> Raphy"
    using that V(1,2) by simp
qed

text \<open>
  Claim C4. For non-empty batches \<open>x\<close> and \<open>y\<close> of vectors of one width and a supported
  kernel that is defined on them, \<open>compute_mmd(x, y, kernel)\<close> is the mean of the entries of
  \<open>K(x, x)\<close> plus the mean of the entries of \<open>K(y, y)\<close> minus twice the mean of the entries
  of \<open>K(x, y)\<close>, where \<open>K\<close> is \<open>compute_kernel\<close> with that kernel; in \<open>RCVAEMultiTF\<close> too,
  for its two kernels.
\<close>

theorem compute_mmd_formula:
  assumes "tensor_dim d x" "tensor_dim d y" "x \<noteq> []" "y \<noteq> []" "kernel_defined k d scales"
  shows "compute_mmd x y k scales =
           Inr (Some (entries_mean (the (compute_kernel x x k scales))
                      + entries_mean (the (compute_kernel y y k scales))
                      - 2 * entries_mean (the (compute_kernel x y k scales)))) \<and>
         (k \<noteq> Raphy \<longrightarrow>
            compute_mmd_tf x y k =
              Inr (Some (entries_mean (the (compute_kernel_tf x x k))
                         + entries_mean (the (compute_kernel_tf y y k))
                         - 2 * entries_mean (the (compute_kernel_tf x y k)))))"
proof -
  note xx = reduce_mean_kernel [OF assms(5,1,1,3,3)]
  note yy = reduce_mean_kernel [OF assms(5,2,2,4,4)]
  note xy = reduce_mean_kernel [OF assms(5,1,2,3,4)]
  have 1: "compute_mmd x y k scales =
           Inr (Some (entries_mean (the (compute_kernel x x k scales))
                      + entries_mean (the (compute_kernel y y k scales))
                      - 2 * entries_mean (the (compute_kernel x y k scales))))"
    using xx(1,2) yy(1,2) xy(1,2)
    by (auto simp: compute_mmd_def flt_add_def flt_sub_def flt_mul_def)
  have 2: "compute_mmd_tf x y k =
              Inr (Some (entries_mean (the (compute_kernel_tf x x k))
                         + entries_mean (the (compute_kernel_tf y y k))
                         - 2 * entries_mean (the (compute_kernel_tf x y k))))" if "k \<noteq> Raphy"
    using xx(1,2) yy(1,2) xy(1,2) xx(3) [OF that] yy(3) [OF that] xy(3) [OF that]
    by (auto simp: compute_mmd_tf_def flt_add_def flt_sub_def flt_mul_def)
  show ?thesis using 1 2 by blast
qed

text \<open>
  Claim C7. For a non-empty batch \<open>x\<close> and a supported kernel that is defined on it,
  \<open>compute_mmd(x, x, kernel)\<close> is \<open>0\<close> in real arithmetic: the three kernel means are the
  same number. In \<open>RCVAEMultiTF\<close> too, for its two kernels.
\<close>

theorem compute_mmd_self:
  assumes "tensor_dim d x" "x \<noteq> []" "kernel_defined k d scales"
  shows "compute_mmd x x k scales = Inr (Some 0) \<and>
         (k \<noteq> Raphy \<longrightarrow> compute_mmd_tf x x k = Inr (Some 0))"
proof -
  note xx = reduce_mean_kernel [OF assms(3,1,1,2,2)]
  have 1: "compute_mmd x x k scales = Inr (Some 0)"
    using xx(1,2) by (auto simp: compute_mmd_def flt_add_def flt_sub_def flt_mul_def)
  have 2: "compute_mmd_tf x x k = Inr (Some 0)" if "k \<noteq> Raphy"
    using xx(1,2) xx(3) [OF that]
    by (auto simp: compute_mmd_tf_def flt_add_def flt_sub_def flt_mul_def)
  show ?thesis using 1 2 by blast
qed

theorem compute_mmd_formula_witness:
  "tensor_dim 1 [[0]] \<and> tensor_dim 1 [[1]] \<and> kernel_defined Rbf 1 [] \<and>
   compute_mmd [[0]] [[1]] Rbf [] = Inr (Some (1 + 1 - 2 * exp (- 1)))"
proof -
  have h: "tensor_dim 1 [[0]]" "tensor_dim 1 [[1]]" "[[0::real]] \<noteq> []" "[[1::real]] \<noteq> []"
    "kernel_defined Rbf 1 []"
    by (simp_all add: tensor_dim_def kernel_defined_def)
  show ?thesis
    using h(1,2,5) compute_mmd_formula [OF h]
    by (simp add: entries_mean_def rbf_eval)
qed

theorem compute_mmd_self_witness:
  "tensor_dim 1 [[0], [1]] \<and> kernel_defined MultiScaleRbf 1 [] \<and>
   compute_mmd [[0], [1]] [[0], [1]] MultiScaleRbf [] = Inr (Some 0) \<and>
   compute_mmd_tf [[0], [1]] [[0], [1]] MultiScaleRbf = Inr (Some 0)"
proof -
  have h: "tensor_dim 1 [[0], [1]]" "[[0::real], [1]] \<noteq> []" "kernel_defined MultiScaleRbf 1 []"
    by (simp_all add: tensor_dim_def kernel_defined_def)
  show ?thesis
    using h(1,3) compute_mmd_self [OF h] by simp
qed


section \<open>The multi-scale kernel\<close>

lemma squared_distance_entry:
  assumes "tensor_dim d x" "tensor_dim d y" "i < length x" "j < length y"
  shows "squared_distance x y ! i ! j = (\<Sum>k<d. (x ! i ! k - y ! j ! k)\<^sup>2)"
proof -
  have "squared_distance x y ! i ! j = sum_list (map2 (\<lambda>u v. square (u - v)) (x ! i) (y ! j))"
    using assms(3,4) by (simp add: squared_distance_def)
  also have "\<dots> = (\<Sum>k<d. square (x ! i ! k - y ! j ! k))"
    by (rule sum_list_map2_nth) (use assms in \<open>simp_all add: tensor_dim_nth\<close>)
  finally show ?thesis by (simp add: square_def power2_eq_square)
qed

lemma sigmas_facts:
  "length sigmas = 19" "sorted sigmas" "distinct sigmas"
  "hd sigmas = 1 / 10 ^ 6" "last sigmas = 10 ^ 6"
  by (simp_all add: sigmas_def)

text \<open>
  Claim C5. \<open>compute_kernel(x, y, 'multi-scale-rbf')\<close> is the matrix whose entry \<open>(i, j)\<close>
  is \<open>1 / 19\<close> times the sum, over the 19 fixed bandwidths \<open>sigmas\<close>, of the Gaussian value
  \<open>exp (- d / (2 * sigma))\<close> at the squared Euclidean distance \<open>d\<close> of the rows \<open>x_i\<close> and
  \<open>y_j\<close>. The bandwidths are 19 distinct numbers in increasing order from \<open>1e-6\<close> to \<open>1e6\<close>.
\<close>

theorem multi_scale_rbf_entrywise:
  assumes "tensor_dim d x" "tensor_dim d y" "i < length x" "j < length y"
  shows "compute_kernel x y MultiScaleRbf scales = Some (multi_scale_rbf_kernel x y) \<and>
         compute_kernel_tf x y MultiScaleRbf = Some (multi_scale_rbf_kernel x y) \<and>
         length (multi_scale_rbf_kernel x y) = length x \<and>
         length (multi_scale_rbf_kernel x y ! i) = length y \<and>
         multi_scale_rbf_kernel x y ! i ! j =
           Some (1 / 19 * (\<Sum>s\<leftarrow>sigmas. exp (- (\<Sum>k<d. (x ! i ! k - y ! j ! k)\<^sup>2) / (2 * s)))) \<and>
         length sigmas = 19 \<and> sorted sigmas \<and> distinct sigmas \<and>
         hd sigmas = 1 / 10 ^ 6 \<and> last sigmas = 10 ^ 6"
proof -
  have k: "compute_kernel x y MultiScaleRbf scales = Some (multi_scale_rbf_kernel x y)"
    "compute_kernel_tf x y MultiScaleRbf = Some (multi_scale_rbf_kernel x y)"
    by (simp_all add: compute_kernel_def compute_kernel_tf_def)
  have len: "length (multi_scale_rbf_kernel x y) = length x"
    "length (multi_scale_rbf_kernel x y ! i) = length y"
    using assms(3) by (simp_all add: multi_scale_rows squared_distance_def)
  have "multi_scale_rbf_kernel x y ! i ! j =
          Some (sum_list (map (\<lambda>s. exp (- (1 / (2 * s) * (squared_distance x y ! i ! j)))) sigmas)
                / real (length sigmas))"
    unfolding multi_scale_rows using assms(3,4) by (simp add: squared_distance_def)
  then have e: "multi_scale_rbf_kernel x y ! i ! j =
           Some (1 / 19 * (\<Sum>s\<leftarrow>sigmas. exp (- (\<Sum>k<d. (x ! i ! k - y ! j ! k)\<^sup>2) / (2 * s))))"
    by (simp add: squared_distance_entry [OF assms] sigmas_facts(1))
  show ?thesis
    using k len e sigmas_facts by blast
qed

theorem multi_scale_rbf_entrywise_witness:
  "tensor_dim 1 [[0]] \<and> multi_scale_rbf_kernel [[0]] [[0]] ! 0 ! 0 = Some 1 \<and>
   compute_kernel [[0]] [[0]] MultiScaleRbf [] = Some (multi_scale_rbf_kernel [[0]] [[0]])"
proof -
  have h: "tensor_dim 1 [[0]]" by (simp add: tensor_dim_def)
  show ?thesis
    using h multi_scale_rbf_entrywise [OF h h, of 0 0 "[]"]
    by (simp add: sigmas_def)
qed

section \<open>The two-group loss of the dense and convolutional models\<close>

lemma zip_filter_index:
  assumes "length ps = length xs"
  shows "map fst (filter (\<lambda>dp. P (snd dp)) (zip xs ps)) =
           map (\<lambda>i. xs ! i) (filter (\<lambda>i. P (ps ! i)) [0..<length xs])"
proof -
  have "zip xs ps = map (\<lambda>i. (xs ! i, ps ! i)) [0..<length xs]"
    using assms by (intro nth_equalityI) simp_all
  then show ?thesis
    by (simp add: filter_map comp_def)
qed

lemma dynamic_partition_two:
  assumes "length labels = length rows"
    and "list_all (\<lambda>l. cast_int32 l = 0 \<or> cast_int32 l = 1) labels"
  shows "dynamic_partition rows (map cast_int32 labels) 2 =
           Inr [label_group 0 rows labels, label_group 1 rows labels]"
proof -
  have inr: "\<not> list_ex (\<lambda>p. p < 0 \<or> int 2 \<le> p) (map cast_int32 labels)"
    using assms(2) by (auto simp: list_all_iff list_ex_iff)
  have g: "map fst (filter (\<lambda>dp. snd dp = c) (zip rows (map cast_int32 labels))) =
             label_group c rows labels" for c
  proof -
    have "filter (\<lambda>i. map cast_int32 labels ! i = c) [0..<length rows] =
            filter (\<lambda>i. cast_int32 (labels ! i) = c) [0..<length rows]"
      by (rule filter_cong) (use assms(1) in simp_all)
    then show ?thesis
      using zip_filter_index [of "map cast_int32 labels" rows "\<lambda>p. p = c"] assms(1)
      by (simp add: label_group_def)
  qed
  have u: "[0..<2] = [0, 1]" by (simp add: upt_rec)
  show ?thesis
    using assms(1) inr by (simp add: dynamic_partition_def g u)
qed

lemma dynamic_partition_out_of_range:
  assumes "length labels = length rows"
    and "\<not> list_all (\<lambda>l. cast_int32 l = 0 \<or> cast_int32 l = 1) labels"
  shows "dynamic_partition rows (map cast_int32 labels) 2 = Inl InvalidArgumentError"
proof -
  obtain l where "l \<in> set labels" "cast_int32 l \<noteq> 0" "cast_int32 l \<noteq> 1"
    using assms(2) by (auto simp: list_all_iff)
  then have "cast_int32 l < 0 \<or> 2 \<le> cast_int32 l" by arith
  then have "list_ex (\<lambda>p. p < 0 \<or> int 2 \<le> p) (map cast_int32 labels)"
    using \<open>l \<in> set labels\<close> by (auto simp: list_ex_iff)
  then show ?thesis
    using assms(1) unfolding dynamic_partition_def by simp
qed

text \<open>
  Claim C10. \<open>mmd_loss\<close> of \<open>RCVAE\<close> and \<open>RCCVAE\<close> cuts the batch into exactly two groups,
  whatever the configured condition list is. When every label of the batch is \<open>0\<close> or \<open>1\<close>,
  the loss is \<open>beta\<close> times \<open>compute_mmd\<close> of the rows labelled \<open>0\<close> against the rows
  labelled \<open>1\<close>; when some label is outside \<open>{0, 1}\<close>, the partition operation rejects the
  batch.
\<close>

theorem mmd_loss_two_groups:
  assumes "length real_labels = length y_pred"
  shows "(list_all (\<lambda>l. cast_int32 l = 0 \<or> cast_int32 l = 1) real_labels \<longrightarrow>
            mmd_loss obj real_labels y_pred =
              (case compute_mmd (label_group 0 y_pred real_labels)
                      (label_group 1 y_pred real_labels) (kernel_method obj) [] of
                 Inl e \<Rightarrow> Inl e
               | Inr loss \<Rightarrow> Inr (flt_mul (Some (beta obj)) loss))) \<and>
         (\<not> list_all (\<lambda>l. cast_int32 l = 0 \<or> cast_int32 l = 1) real_labels \<longrightarrow>
            mmd_loss obj real_labels y_pred = Inl InvalidArgumentError) \<and>
         mmd_loss (obj\<lparr>conditions := cs\<rparr>) real_labels y_pred = mmd_loss obj real_labels y_pred"
proof -
  have "mmd_loss (obj\<lparr>conditions := cs\<rparr>) real_labels y_pred = mmd_loss obj real_labels y_pred"
    by (simp add: mmd_loss_def split: sum.splits list.splits)
  moreover have "mmd_loss obj real_labels y_pred =
              (case compute_mmd (label_group 0 y_pred real_labels)
                      (label_group 1 y_pred real_labels) (kernel_method obj) [] of
                 Inl e \<Rightarrow> Inl e
               | Inr loss \<Rightarrow> Inr (flt_mul (Some (beta obj)) loss))"
    if "list_all (\<lambda>l. cast_int32 l = 0 \<or> cast_int32 l = 1) real_labels"
    using dynamic_partition_two [OF assms that] by (simp add: mmd_loss_def)
  moreover have "mmd_loss obj real_labels y_pred = Inl InvalidArgumentError"
    if "\<not> list_all (\<lambda>l. cast_int32 l = 0 \<or> cast_int32 l = 1) real_labels"
    using dynamic_partition_out_of_range [OF assms that] by (simp add: mmd_loss_def)
  ultimately show ?thesis by blast
qed

theorem mmd_loss_two_groups_witness:
  "mmd_loss \<lparr>beta = 2, conditions = None, kernel_method = Rbf, model_to_use = [],
             rae_model = (), encoder_model = (), decoder_model = ()\<rparr> [0, 1] [[0], [1]] =
     Inr (Some (2 * (1 + 1 - 2 * exp (- 1)))) \<and>
   mmd_loss \<lparr>beta = 2, conditions = None, kernel_method = Rbf, model_to_use = [],
             rae_model = (), encoder_model = (), decoder_model = ()\<rparr> [0, 2] [[0], [1]] =
     Inl InvalidArgumentError"
proof -
  let ?obj = "\<lparr>beta = 2, conditions = None, kernel_method = Rbf, model_to_use = [],
             rae_model = (), encoder_model = (), decoder_model = ()\<rparr>"
  have l: "length [0, 1 :: real] = length [[0], [1 :: real]]"
    "length [0, 2 :: real] = length [[0], [1 :: real]]" by simp_all
  have u: "[0..<2] = [0, 1]" by (simp add: upt_rec)
  have g: "label_group 0 [[0], [1 :: real]] [0, 1] = [[0]]"
    "label_group 1 [[0], [1 :: real]] [0, 1] = [[1]]"
    by (simp_all add: label_group_def cast_int32_def u)
  have m: "compute_mmd [[0]] [[1]] Rbf [] = Inr (Some (1 + 1 - 2 * exp (- 1)))"
    by (simp add: compute_mmd_def rbf_eval reduce_mean_def flt_add_def flt_sub_def flt_mul_def)
  show ?thesis
    using mmd_loss_two_groups [OF l(1), of ?obj None] mmd_loss_two_groups [OF l(2), of ?obj None]
    by (simp add: cast_int32_def g m flt_mul_def)
qed

lemma compute_kernel_empty:
  "k \<noteq> OtherKernel \<Longrightarrow> compute_kernel [] [] k scales = Some []"
  by (cases k)
     (simp_all add: compute_kernel_def rbf_kernel_def tile_x_def tile_y_def raphy_kernel_def
        squared_distance_def multi_scale_rbf_kernel_def reshape2_def)

lemma compute_kernel_supported:
  "k \<noteq> OtherKernel \<Longrightarrow> \<exists>K. compute_kernel x y k scales = Some K"
  by (cases k) (simp_all add: compute_kernel_def)

lemma reduce_mean_empty: "reduce_mean [] = None"
  by (simp add: reduce_mean_def mean_axis_def)

lemma flt_None [simp]:
  "flt_add a None = None" "flt_add None b = None"
  "flt_sub a None = None" "flt_sub None b = None"
  "flt_mul a None = None" "flt_mul None b = None"
  by (simp_all add: flt_add_def flt_sub_def flt_mul_def split: option.splits)

lemma compute_mmd_empty:
  assumes "k \<noteq> OtherKernel" "x = [] \<or> y = []"
  shows "compute_mmd x y k scales = Inr None"
proof -
  obtain A B C where K: "compute_kernel x x k scales = Some A"
    "compute_kernel y y k scales = Some B" "compute_kernel x y k scales = Some C"
    using compute_kernel_supported [OF assms(1)] by metis
  have "reduce_mean A = None \<or> reduce_mean B = None"
    using assms(2) K(1,2) compute_kernel_empty [OF assms(1), of scales]
    by (auto simp: reduce_mean_empty)
  then show ?thesis
    by (auto simp: compute_mmd_def K)
qed

lemma label_group_all:
  assumes "length labels = length rows" "list_all (\<lambda>l. cast_int32 l = c) labels" "c' \<noteq> c"
  shows "label_group c' rows labels = []"
  using assms by (auto simp: label_group_def list_all_length filter_empty_conv)

lemma label_group_nonempty:
  assumes "length labels = length rows" "list_ex (\<lambda>l. cast_int32 l = c) labels"
  shows "label_group c rows labels \<noteq> []"
proof -
  obtain i where "i < length labels" "cast_int32 (labels ! i) = c"
    using assms(2) by (auto simp: list_ex_length)
  then show ?thesis
    using assms(1) by (auto simp: label_group_def filter_empty_conv)
qed

lemma label_group_tensor:
  "tensor_dim d rows \<Longrightarrow> tensor_dim d (label_group c rows labels)"
  by (auto simp: tensor_dim_def label_group_def list_all_iff)

text \<open>
  Claim C6, as the code has it. When every sample of a batch carries the same label (\<open>0\<close>
  or \<open>1\<close>), one of the two groups is empty, the mean over its empty kernel matrix divides
  \<open>0\<close> by \<open>0\<close>, and the MMD loss is NaN: no error is raised and nothing guards the
  division. The loss is a number when both labels occur in the batch and the kernel is
  defined on its rows.
\<close>

theorem mmd_loss_single_label:
  assumes "length real_labels = length y_pred" "kernel_method obj \<noteq> OtherKernel"
  shows "(list_all (\<lambda>l. cast_int32 l = 0) real_labels \<or>
          list_all (\<lambda>l. cast_int32 l = 1) real_labels \<longrightarrow>
            mmd_loss obj real_labels y_pred = Inr None) \<and>
         (list_all (\<lambda>l. cast_int32 l = 0 \<or> cast_int32 l = 1) real_labels \<and>
          list_ex (\<lambda>l. cast_int32 l = 0) real_labels \<and>
          list_ex (\<lambda>l. cast_int32 l = 1) real_labels \<and>
          tensor_dim d y_pred \<and> kernel_defined (kernel_method obj) d [] \<longrightarrow>
            (\<exists>v. mmd_loss obj real_labels y_pred = Inr (Some v)))"
proof (intro conjI impI)
  assume a: "list_all (\<lambda>l. cast_int32 l = 0) real_labels \<or>
          list_all (\<lambda>l. cast_int32 l = 1) real_labels"
  then have in01: "list_all (\<lambda>l. cast_int32 l = 0 \<or> cast_int32 l = 1) real_labels"
    by (auto simp: list_all_iff)
  have "label_group 0 y_pred real_labels = [] \<or> label_group 1 y_pred real_labels = []"
    using a label_group_all [OF assms(1), of 0 1] label_group_all [OF assms(1), of 1 0] by auto
  then have "compute_mmd (label_group 0 y_pred real_labels) (label_group 1 y_pred real_labels)
               (kernel_method obj) [] = Inr None"
    by (rule compute_mmd_empty [OF assms(2)])
  then show "mmd_loss obj real_labels y_pred = Inr None"
    using dynamic_partition_two [OF assms(1) in01] by (simp add: mmd_loss_def)
next
  assume b: "list_all (\<lambda>l. cast_int32 l = 0 \<or> cast_int32 l = 1) real_labels \<and>
          list_ex (\<lambda>l. cast_int32 l = 0) real_labels \<and>
          list_ex (\<lambda>l. cast_int32 l = 1) real_labels \<and>
          tensor_dim d y_pred \<and> kernel_defined (kernel_method obj) d []"
  let ?s = "label_group 0 y_pred real_labels" and ?t = "label_group 1 y_pred real_labels"
  have ne: "?s \<noteq> []" "?t \<noteq> []"
    using b label_group_nonempty [OF assms(1)] by blast+
  have td: "tensor_dim d ?s" "tensor_dim d ?t"
    using b label_group_tensor by blast+
  have kd: "kernel_defined (kernel_method obj) d []" using b by blast
  note ss = reduce_mean_kernel [OF kd td(1) td(1) ne(1) ne(1)]
  note tt = reduce_mean_kernel [OF kd td(2) td(2) ne(2) ne(2)]
  note st = reduce_mean_kernel [OF kd td(1) td(2) ne(1) ne(2)]
  have "\<exists>v. compute_mmd ?s ?t (kernel_method obj) [] = Inr (Some v)"
    using ss(1,2) tt(1,2) st(1,2)
    by (auto simp: compute_mmd_def flt_add_def flt_sub_def flt_mul_def)
  then show "\<exists>v. mmd_loss obj real_labels y_pred = Inr (Some v)"
    using dynamic_partition_two [OF assms(1)] b
    by (auto simp: mmd_loss_def flt_mul_def)
qed

theorem mmd_loss_single_label_witness:
  "mmd_loss \<lparr>beta = 100, conditions = None, kernel_method = MultiScaleRbf, model_to_use = [],
             rae_model = (), encoder_model = (), decoder_model = ()\<rparr> [0, 0] [[0], [1]] =
     Inr None \<and>
   (\<exists>v. mmd_loss \<lparr>beta = 100, conditions = None, kernel_method = MultiScaleRbf,
                  model_to_use = [], rae_model = (), encoder_model = (),
                  decoder_model = ()\<rparr> [0, 1] [[0], [1]] = Inr (Some v))"
proof -
  let ?obj = "\<lparr>beta = 100, conditions = None, kernel_method = MultiScaleRbf, model_to_use = [],
             rae_model = (), encoder_model = (), decoder_model = ()\<rparr>"
  have l: "length [0, 0 :: real] = length [[0], [1 :: real]]"
    "length [0, 1 :: real] = length [[0], [1 :: real]]" by simp_all
  have k: "kernel_method ?obj \<noteq> OtherKernel" by simp
  show ?thesis
    using mmd_loss_single_label [OF l(1) k, of 1] mmd_loss_single_label [OF l(2) k, of 1]
    by (simp add: cast_int32_def tensor_dim_def kernel_defined_def)
qed

text \<open>
  A batch of two samples, both labelled \<open>1\<close>: the loss is NaN.
\<close>

theorem mmd_loss_single_label_counterexample:
  "mmd_loss \<lparr>beta = 100, conditions = None, kernel_method = Rbf, model_to_use = [],
             rae_model = (), encoder_model = (), decoder_model = ()\<rparr> [1, 1] [[0], [1]] =
     Inr None"
proof -
  have u: "[0..<2] = [0, 1]" by (simp add: upt_rec)
  show ?thesis
    by (simp add: mmd_loss_def dynamic_partition_def cast_int32_def u compute_mmd_def rbf_eval
        reduce_mean_def)
qed

section \<open>Persistence of the dense model\<close>

lemma path_join_inject:
  assumes "b \<noteq> []" "hd b \<noteq> CHR ''/''" "b' \<noteq> []" "hd b' \<noteq> CHR ''/''"
  shows "path_join a b = path_join a b' \<longleftrightarrow> b = b'"
  using assms by (simp add: path_join_def)

text \<open>
  Claim C3 asks that \<open>restore_model\<close> loads the files that \<open>train\<close> wrote. On an empty model
  directory, \<open>train\<close> with \<open>save=True\<close> returns and writes the full model as \<open>mmd_rae.h5\<close>,
  beside \<open>encoder.h5\<close> and \<open>decoder.h5\<close>; \<open>restore_model\<close> on the object and the files that
  \<open>train\<close> left asks for \<open>mmd_ae.h5\<close>, a file that \<open>train\<close> never writes, and raises.
\<close>

theorem train_then_restore_raises:
  "(case train fit shuffle_data (obj, Map.empty) data False None n sh True of
      Raised e st \<Rightarrow> False
    | Returned st \<Rightarrow>
        snd st (path_join (model_to_use (fst st)) ''mmd_rae.h5'') = Some (rae_model (fst st)) \<and>
        snd st (path_join (model_to_use (fst st)) ''encoder.h5'') = Some (encoder_model (fst st)) \<and>
        snd st (path_join (model_to_use (fst st)) ''decoder.h5'') = Some (decoder_model (fst st)) \<and>
        snd st (path_join (model_to_use (fst st)) ''mmd_ae.h5'') = None \<and>
        restore_model (fst st) (snd st) = Raised OSError (fst st))"
  by (simp add: train_def restore_model_def load_model_def Let_def path_join_inject)

text \<open>
  The convolutional model names one file, \<open>mmd_cvae.h5\<close>, in both places: there the restore
  after a save returns, with the models that were saved.
\<close>

lemma rccvae_round_trip:
  "restore_model_rccvae obj (save_rccvae obj fs) = Returned obj"
  by (simp add: restore_model_rccvae_def save_rccvae_def load_model_def Let_def path_join_inject)

section \<open>The accumulated loss of the multi-condition model\<close>

lemma flt_add_assoc: "flt_add (flt_add a b) c = flt_add a (flt_add b c)"
  by (cases a; cases b; cases c) (simp_all add: flt_add_def)

lemma flt_add_commute: "flt_add a b = flt_add b a"
  by (cases a; cases b) (simp_all add: flt_add_def)

lemma flt_add_zero [simp]: "flt_add (Some 0) a = a" "flt_add a (Some 0) = a"
  by (cases a; simp add: flt_add_def)+

lemma flt_sum_simps [simp]:
  "flt_sum [] = Some 0" "flt_sum (v # vs) = flt_add v (flt_sum vs)"
  by (simp_all add: flt_sum_def)

lemma flt_sum_append: "flt_sum (xs @ ys) = flt_add (flt_sum xs) (flt_sum ys)"
  by (induction xs) (simp_all add: flt_add_assoc)

lemma flt_sum_pointwise:
  "flt_add (flt_sum (map g xs)) (flt_sum (map h xs)) = flt_sum (map (\<lambda>k. flt_add (g k) (h k)) xs)"
proof (induction xs)
  case Nil
  show ?case by simp
next
  case (Cons x xs)
  have "flt_add (flt_add (g x) (flt_sum (map g xs))) (flt_add (h x) (flt_sum (map h xs))) =
          flt_add (flt_add (g x) (h x)) (flt_add (flt_sum (map g xs)) (flt_sum (map h xs)))"
    by (metis flt_add_assoc flt_add_commute)
  then show ?case using Cons.IH by simp
qed

lemma fold_flt_add:
  "fold (\<lambda>j l. flt_add l (v j)) js a = flt_add a (flt_sum (map v js))"
  by (induction js arbitrary: a) (simp_all add: flt_add_assoc)

lemma fold_inner_Inr:
  assumes "\<And>j. j \<in> set js \<Longrightarrow> f j = Inr (v j)"
  shows "fold (\<lambda>j loss. add_loss loss (f j)) js (Inr a) = Inr (flt_add a (flt_sum (map v js)))"
  using assms by (induction js arbitrary: a) (simp_all add: flt_add_assoc add_loss_def)

lemma fold_outer_Inr:
  assumes "\<And>i j. i \<in> set is \<Longrightarrow> j < i \<Longrightarrow> f j = Inr (v j)"
  shows "fold (\<lambda>i. fold (\<lambda>j loss. add_loss loss (f j)) [0..<i]) is (Inr a) =
           Inr (flt_add a (flt_sum (concat (map (\<lambda>i. map v [0..<i]) is))))"
  using assms
proof (induction "is" arbitrary: a)
  case Nil
  show ?case by simp
next
  case (Cons i "is")
  have 1: "fold (\<lambda>j loss. add_loss loss (f j)) [0..<i] (Inr a) =
             Inr (flt_add a (flt_sum (map v [0..<i])))"
    by (rule fold_inner_Inr) (use Cons.prems in auto)
  have 2: "fold (\<lambda>i. fold (\<lambda>j loss. add_loss loss (f j)) [0..<i]) is
             (Inr (flt_add a (flt_sum (map v [0..<i])))) =
           Inr (flt_add (flt_add a (flt_sum (map v [0..<i])))
                  (flt_sum (concat (map (\<lambda>i. map v [0..<i]) is))))"
    by (rule Cons.IH) (use Cons.prems in auto)
  show ?case
    by (simp add: 1 2 flt_sum_append flt_add_assoc)
qed

lemma flt_mul_succ:
  "flt_add (flt_mul (Some (real m)) a) a = flt_mul (Some (real (Suc m))) a"
  by (cases a) (simp_all add: flt_add_def flt_mul_def algebra_simps)

lemma triangle_step:
  "flt_add (flt_sum (map (\<lambda>k. flt_mul (Some (real (n - 1 - k))) (v k)) [0..<n - 1]))
     (flt_sum (map v [0..<n])) =
   flt_sum (map (\<lambda>k. flt_mul (Some (real (Suc n - 1 - k))) (v k)) [0..<Suc n - 1])"
proof (cases n)
  case 0
  then show ?thesis by simp
next
  case (Suc m)
  have one: "flt_mul (Some (real (Suc 0))) (v m) = v m"
    by (cases "v m") (simp_all add: flt_mul_def)
  have "flt_add (flt_sum (map (\<lambda>k. flt_mul (Some (real (m - k))) (v k)) [0..<m]))
          (flt_sum (map v [0..<m])) =
        flt_sum (map (\<lambda>k. flt_add (flt_mul (Some (real (m - k))) (v k)) (v k)) [0..<m])"
    by (rule flt_sum_pointwise)
  also have "\<dots> = flt_sum (map (\<lambda>k. flt_mul (Some (real (Suc m - k))) (v k)) [0..<m])"
  proof -
    have h: "flt_add (flt_mul (Some (real (m - k))) (v k)) (v k) =
            flt_mul (Some (real (Suc m - k))) (v k)" if "k < m" for k
      using that flt_mul_succ [of "m - k" "v k"] by (simp add: Suc_diff_le)
    show ?thesis
    proof (intro arg_cong [where f = flt_sum] map_cong refl)
      fix k assume "k \<in> set [0..<m]"
      then have "k < m" by simp
      then show "flt_add (flt_mul (Some (real (m - k))) (v k)) (v k) =
            flt_mul (Some (real (Suc m - k))) (v k)" by (rule h)
    qed
  qed
  finally have "flt_add (flt_sum (map (\<lambda>k. flt_mul (Some (real (m - k))) (v k)) [0..<m]))
          (flt_sum (map v [0..<m] @ [v m])) =
        flt_sum (map (\<lambda>k. flt_mul (Some (real (Suc m - k))) (v k)) [0..<m] @ [v m])"
    by (simp add: flt_sum_append flt_add_assoc [symmetric])
  then show ?thesis using Suc one by simp
qed

lemma triangle_sum:
  "flt_sum (concat (map (\<lambda>i. map v [0..<i]) [0..<n])) =
   flt_sum (map (\<lambda>k. flt_mul (Some (real (n - 1 - k))) (v k)) [0..<n - 1])"
proof (induction n)
  case 0
  show ?case by simp
next
  case (Suc n)
  have "flt_sum (concat (map (\<lambda>i. map v [0..<i]) [0..<Suc n])) =
          flt_add (flt_sum (concat (map (\<lambda>i. map v [0..<i]) [0..<n]))) (flt_sum (map v [0..<n]))"
    by (simp add: flt_sum_append)
  then show ?case
    unfolding Suc.IH triangle_step .
qed

lemma argmax_range:
  assumes "r \<noteq> []"
  shows "0 \<le> argmax r \<and> argmax r < int (length r)"
proof -
  have "Max (set r) \<in> set r" using assms by (intro Max_in) simp_all
  then have "takeWhile (\<lambda>v. v \<noteq> Max (set r)) r \<noteq> r"
    by (auto simp: takeWhile_eq_all_conv)
  moreover have "length (takeWhile (\<lambda>v. v \<noteq> Max (set r)) r) \<le> length r"
    by (rule length_takeWhile_le)
  ultimately have "length (takeWhile (\<lambda>v. v \<noteq> Max (set r)) r) < length r"
    by (metis le_neq_implies_less takeWhile_eq_take take_all_iff order_refl)
  then show ?thesis by (simp add: argmax_def)
qed

lemma dynamic_partition_argmax:
  assumes "0 < n" "length labels = length rows" "tensor_dim n labels"
  shows "dynamic_partition rows (map argmax labels) n =
           Inr (map (\<lambda>c. argmax_group c rows labels) [0..<n])"
proof -
  have "0 \<le> argmax r \<and> argmax r < int n" if "r \<in> set labels" for r
  proof -
    have "length r = n" using that assms(3) by (auto simp: tensor_dim_def list_all_iff)
    then show ?thesis using argmax_range [of r] assms(1) by auto
  qed
  then have inr: "\<not> list_ex (\<lambda>p. p < 0 \<or> int n \<le> p) (map argmax labels)"
    by (fastforce simp: list_ex_iff)
  have g: "map fst (filter (\<lambda>dp. snd dp = int c) (zip rows (map argmax labels))) =
             argmax_group c rows labels" for c
  proof -
    have "filter (\<lambda>i. map argmax labels ! i = int c) [0..<length rows] =
            filter (\<lambda>i. argmax (labels ! i) = int c) [0..<length rows]"
      by (rule filter_cong) (use assms(2) in simp_all)
    then show ?thesis
      using zip_filter_index [of "map argmax labels" rows "\<lambda>p. p = int c"] assms(2)
      by (simp add: argmax_group_def)
  qed
  show ?thesis
    using assms(1,2) inr by (simp add: dynamic_partition_def g)
qed

lemma compute_mmd_tf_Inr:
  assumes "kern = Rbf \<or> kern = MultiScaleRbf"
  shows "compute_mmd_tf x y kern = Inr (projr (compute_mmd_tf x y kern))"
  using assms by (auto simp: compute_mmd_tf_def compute_kernel_tf_def)

text \<open>
  What the double loop of \<open>RCVAEMultiTF._loss_function\<close> computes. For \<open>N\<close> conditions the
  batch is cut into the \<open>N\<close> groups of its labels, and the accumulated term is \<open>beta\<close> times
  the sum over the adjacent pairs \<open>k = 0 .. N-2\<close> of \<open>N - 1 - k\<close> times
  \<open>compute_mmd(group k, group k+1)\<close>. The body of the loop reads the inner index \<open>j\<close> alone, so
  the pair \<open>(j, j+1)\<close> is added once for every outer index \<open>i\<close> above \<open>j\<close>, and no pair that
  is not adjacent is ever added.
\<close>

theorem mmd_loss_tf_accumulation:
  assumes "0 < n" "length decoder_labels = length mmd_hl" "tensor_dim n decoder_labels"
    and "kern = Rbf \<or> kern = MultiScaleRbf"
  shows "mmd_loss_tf b kern n mmd_hl decoder_labels =
           Inr (flt_mul (Some b)
             (flt_sum (map (\<lambda>k. flt_mul (Some (real (n - 1 - k)))
                         (projr (compute_mmd_tf (argmax_group k mmd_hl decoder_labels)
                                   (argmax_group (k + 1) mmd_hl decoder_labels) kern)))
                       [0..<n - 1])))"
proof -
  let ?P = "map (\<lambda>c. argmax_group c mmd_hl decoder_labels) [0..<n]"
  let ?f = "\<lambda>j. compute_mmd_tf (?P ! j) (?P ! (j + 1)) kern"
  let ?v = "\<lambda>k. projr (compute_mmd_tf (argmax_group k mmd_hl decoder_labels)
                                   (argmax_group (k + 1) mmd_hl decoder_labels) kern)"
  have f: "?f j = Inr (?v j)" if "i \<in> set [0..<length ?P]" "j < i" for i j
  proof -
    have "j < n" "j + 1 < n" using that by auto
    then have "?f j = compute_mmd_tf (argmax_group j mmd_hl decoder_labels)
                        (argmax_group (j + 1) mmd_hl decoder_labels) kern"
      by simp
    then show ?thesis using compute_mmd_tf_Inr [OF assms(4)] by metis
  qed
  have "fold (\<lambda>i. fold (\<lambda>j loss. add_loss loss (?f j)) [0..<i]) [0..<length ?P] (Inr (Some 0)) =
          Inr (flt_add (Some 0) (flt_sum (concat (map (\<lambda>i. map ?v [0..<i]) [0..<length ?P]))))"
    by (rule fold_outer_Inr) (rule f)
  then have "fold (\<lambda>i. fold (\<lambda>j loss. add_loss loss (?f j)) [0..<i]) [0..<length ?P] (Inr (Some 0)) =
          Inr (flt_sum (map (\<lambda>k. flt_mul (Some (real (n - 1 - k))) (?v k)) [0..<n - 1]))"
    using triangle_sum [of ?v n] by simp
  then show ?thesis
    unfolding mmd_loss_tf_def Let_def dynamic_partition_argmax [OF assms(1-3)]
    by simp
qed

lemma upt_3: "[0..<3] = [0, 1, 2]" "[0..<2] = [0, 1]" "[0..<1] = [0]"
  by (simp_all add: upt_rec)

lemma argmax_one_hot3:
  "argmax [1, 0, 0] = 0" "argmax [0, 1, 0] = 1" "argmax [0, 0, 1] = 2"
  by (simp_all add: argmax_def)

lemma mmd_tf_literals:
  "compute_mmd_tf [[0]] [[1]] Rbf = Inr (Some (2 - 2 * exp (- 1)))"
  "compute_mmd_tf [[1]] [[2]] Rbf = Inr (Some (2 - 2 * exp (- 1)))"
  "compute_mmd_tf [[0]] [[2]] Rbf = Inr (Some (2 - 2 * exp (- 4)))"
  by (simp_all add: compute_mmd_tf_def rbf_eval reduce_mean_def flt_add_def flt_sub_def
      flt_mul_def)

lemma groups3:
  "argmax_group 0 [[0], [1], [2 :: real]] [[1, 0, 0], [0, 1, 0], [0, 0, 1]] = [[0]]"
  "argmax_group (Suc 0) [[0], [1], [2 :: real]] [[1, 0, 0], [0, 1, 0], [0, 0, 1]] = [[1]]"
  "argmax_group 2 [[0], [1], [2 :: real]] [[1, 0, 0], [0, 1, 0], [0, 0, 1]] = [[2]]"
  "argmax_group (Suc (Suc 0)) [[0], [1], [2 :: real]] [[1, 0, 0], [0, 1, 0], [0, 0, 1]] = [[2]]"
  by (simp_all add: argmax_group_def upt_3 argmax_one_hot3)

theorem mmd_loss_tf_accumulation_witness:
  "tensor_dim 3 [[1, 0, 0], [0, 1, 0], [0, 0, 1]] \<and>
   mmd_loss_tf 1 Rbf 3 [[0], [1], [2]] [[1, 0, 0], [0, 1, 0], [0, 0, 1]] =
     Inr (Some (2 * (2 - 2 * exp (- 1)) + 1 * (2 - 2 * exp (- 1))))"
proof -
  have h: "(0::nat) < 3"
    "length [[1, 0, 0], [0, 1, 0], [0, 0, 1 :: real]] = length [[0], [1], [2 :: real]]"
    "tensor_dim 3 [[1, 0, 0], [0, 1, 0], [0, 0, 1]]" "Rbf = Rbf \<or> Rbf = MultiScaleRbf"
    by (simp_all add: tensor_dim_def)
  show ?thesis
    using h(3) mmd_loss_tf_accumulation [OF h, of 1]
    by (simp add: upt_3 groups3 mmd_tf_literals flt_mul_def flt_add_def)
qed

text \<open>
  Claim C1 says that every adjacent pair of partitions contributes exactly once. Three
  conditions, one sample each: the partitions are \<open>[[0]]\<close>, \<open>[[1]]\<close> and \<open>[[2]]\<close>. The loss
  of the code is \<open>6 - 6 / e\<close>: it holds the pair \<open>(0, 1)\<close> twice and the pair \<open>(1, 2)\<close> once.
  That is neither the sum \<open>4 - 4 / e\<close> in which each adjacent pair stands once, nor the sum
  over all three pairs.
\<close>

theorem mmd_loss_tf_three_conditions:
  "dynamic_partition [[0], [1], [2 :: real]] (map argmax [[1, 0, 0], [0, 1, 0], [0, 0, 1]]) 3 =
     Inr [[[0]], [[1]], [[2]]] \<and>
   mmd_loss_tf 1 Rbf 3 [[0], [1], [2]] [[1, 0, 0], [0, 1, 0], [0, 0, 1]] =
     Inr (Some (6 - 6 * exp (- 1))) \<and>
   flt_sum [projr (compute_mmd_tf [[0]] [[1]] Rbf), projr (compute_mmd_tf [[1]] [[2]] Rbf)] =
     Some (4 - 4 * exp (- 1)) \<and>
   flt_sum [projr (compute_mmd_tf [[0]] [[1]] Rbf), projr (compute_mmd_tf [[0]] [[2]] Rbf),
            projr (compute_mmd_tf [[1]] [[2]] Rbf)] =
     Some (6 - 4 * exp (- 1) - 2 * exp (- 4)) \<and>
   6 - 6 * exp (- 1) \<noteq> (4 - 4 * exp (- 1) :: real) \<and>
   6 - 6 * exp (- 1) \<noteq> (6 - 4 * exp (- 1) - 2 * exp (- 4) :: real)"
proof -
  have p: "dynamic_partition [[0], [1], [2 :: real]]
             (map argmax [[1, 0, 0], [0, 1, 0], [0, 0, 1]]) 3 = Inr [[[0]], [[1]], [[2]]]"
    by (simp add: dynamic_partition_def argmax_one_hot3 upt_3)
  have l: "mmd_loss_tf 1 Rbf 3 [[0], [1], [2]] [[1, 0, 0], [0, 1, 0], [0, 0, 1]] =
     Inr (Some (6 - 6 * exp (- 1)))"
    unfolding mmd_loss_tf_def Let_def p
    by (simp add: upt_3 add_loss_def mmd_tf_literals flt_add_def flt_mul_def)
  have s: "flt_sum [projr (compute_mmd_tf [[0]] [[1]] Rbf),
                    projr (compute_mmd_tf [[1]] [[2]] Rbf)] = Some (4 - 4 * exp (- 1))"
    by (simp add: mmd_tf_literals flt_add_def)
  have a: "flt_sum [projr (compute_mmd_tf [[0]] [[1]] Rbf),
                    projr (compute_mmd_tf [[0]] [[2]] Rbf),
                    projr (compute_mmd_tf [[1]] [[2]] Rbf)] =
             Some (6 - 4 * exp (- 1) - 2 * exp (- 4))"
    by (simp add: mmd_tf_literals flt_add_def)
  have "exp (- 1 :: real) \<noteq> 1" by simp
  then have n: "6 - 6 * exp (- 1) \<noteq> (4 - 4 * exp (- 1) :: real)" by arith
  have "exp (- 1 :: real) \<noteq> exp (- 4)" by simp
  then have m: "6 - 6 * exp (- 1) \<noteq> (6 - 4 * exp (- 1) - 2 * exp (- 4) :: real)" by arith
  show ?thesis using p l s a n m by blast
qed

section \<open>Early stopping of the multi-condition model\<close>

lemma train_batches_Inr:
  "0 < batch_size args \<Longrightarrow> \<exists>w'. train_batches g args td w = Inr w'"
  by (simp add: train_batches_def range_step_def)

lemma valid_batches_Inr:
  "0 < batch_size args \<Longrightarrow> vd \<noteq> [] \<Longrightarrow> \<exists>v. valid_batches g args vd w = Inr v"
  by (simp add: valid_batches_def range_step_def Let_def)

lemma early_stopping_eq:
  assumes "verbose args \<longrightarrow> td \<noteq> []"
  shows "early_stopping args td it v s =
     (if next_cnt args it (loss_hist s @ [v]) (patience_cnt s) > early_stop_limit args
      then Break \<lparr>self = saver_save (self s), loss_hist = loss_hist s @ [v],
                  patience_cnt = next_cnt args it (loss_hist s @ [v]) (patience_cnt s)\<rparr>
      else Continue \<lparr>self = self s, loss_hist = loss_hist s @ [v],
                     patience_cnt = next_cnt args it (loss_hist s @ [v]) (patience_cnt s)\<rparr>)"
proof -
  have nv: "\<not> (verbose args \<and> length td = 0)" using assms by simp
  show ?thesis
    unfolding early_stopping_def Let_def next_cnt_def [symmetric]
    by (simp only: nv if_False) simp
qed

lemma epoch_step:
  assumes "0 < batch_size args" "vd \<noteq> []" "verbose args \<longrightarrow> td \<noteq> []"
    and w': "w' = projr (train_batches g args td (weights (sess (self s))))"
    and v: "v = projr (valid_batches g args vd w')"
    and c: "cnt = next_cnt args it (loss_hist s @ [v]) (patience_cnt s)"
    and n: "sn = \<lparr>weights = w', global_step = global_step (sess (self s)) + 1\<rparr>"
  shows "epoch_body g args td (Some vd) it s =
     (if cnt > early_stop_limit args
      then Break \<lparr>self = \<lparr>sess = sn, checkpoint = Some sn\<rparr>,
                  loss_hist = loss_hist s @ [v], patience_cnt = cnt\<rparr>
      else Continue \<lparr>self = \<lparr>sess = sn, checkpoint = checkpoint (self s)\<rparr>,
                     loss_hist = loss_hist s @ [v], patience_cnt = cnt\<rparr>)"
proof -
  obtain w1 where t: "train_batches g args td (weights (sess (self s))) = Inr w1"
    using train_batches_Inr [OF assms(1), of g td "weights (sess (self s))"] by blast
  obtain v1 where v1: "valid_batches g args vd w1 = Inr v1"
    using valid_batches_Inr [OF assms(1,2), of g w1] by blast
  have w1: "w1 = w'" by (simp add: w' t)
  have v1': "v1 = v" using v1 by (simp add: v w1 [symmetric])
  obtain m h c0 where s: "s = \<lparr>self = m, loss_hist = h, patience_cnt = c0\<rparr>"
    by (cases s)
  obtain se ck where m: "m = \<lparr>sess = se, checkpoint = ck\<rparr>" by (cases m)
  obtain ws gs where se: "se = \<lparr>weights = ws, global_step = gs\<rparr>" by (cases se)
  have t': "train_batches g args td ws = Inr w'" using t by (simp add: s m se w1)
  have v': "valid_batches g args vd w' = Inr v" using v1 by (simp add: w1 v1')
  have n': "sn = \<lparr>weights = w', global_step = gs + 1\<rparr>" using n by (simp add: s m se)
  have c': "cnt = next_cnt args it (h @ [v]) c0" using c by (simp add: s)
  have "epoch_body g args td (Some vd) it s =
          early_stopping args td it v
            \<lparr>self = \<lparr>sess = sn, checkpoint = ck\<rparr>, loss_hist = h, patience_cnt = c0\<rparr>"
    unfolding epoch_body_def Let_def s m se
    by (simp add: t' v' n' split del: if_split)
  also have "\<dots> = (if cnt > early_stop_limit args
      then Break \<lparr>self = \<lparr>sess = sn, checkpoint = Some sn\<rparr>,
                  loss_hist = h @ [v], patience_cnt = cnt\<rparr>
      else Continue \<lparr>self = \<lparr>sess = sn, checkpoint = ck\<rparr>,
                     loss_hist = h @ [v], patience_cnt = cnt\<rparr>)"
    unfolding early_stopping_eq [OF assms(3)]
    by (simp add: c' saver_save_def)
  finally show ?thesis by (simp add: s m)
qed

lemma next_cnt_plateau:
  assumes "length h = it" "it = 0 \<or> last h = c" "0 \<le> threshold args"
  shows "next_cnt args it (h @ [c]) k = k + 1"
proof (cases "it = 0")
  case True
  then show ?thesis by (simp add: next_cnt_def)
next
  case False
  then have "h \<noteq> []" "last h = c" using assms(1,2) by auto
  then have "(h @ [c]) ! (it - 1) = c" "(h @ [c]) ! it = c"
    using assms(1) False by (simp_all add: nth_append last_conv_nth)
  then show ?thesis using assms(3) by (simp add: next_cnt_def)
qed

lemma epoch_weights_Suc:
  "epoch_weights g args td (projr (train_batches g args td w)) k =
     epoch_weights g args td w (Suc k)"
  using funpow_swap1 [of "\<lambda>w. projr (train_batches g args td w)" k w]
  by (simp add: epoch_weights_def)

lemma epoch_weights_add:
  "epoch_weights g args td (epoch_weights g args td w k) j = epoch_weights g args td w (j + k)"
  by (simp add: epoch_weights_def funpow_add)

lemma plateau_stops:
  assumes ok: "0 < batch_size args" "vd \<noteq> []" "verbose args \<longrightarrow> td \<noteq> []"
    and th: "0 \<le> threshold args"
    and len: "length (loss_hist s) = it"
    and lst: "it = 0 \<or> last (loss_hist s) = c"
    and d: "early_stop_limit args - patience_cnt s = d" "patience_cnt s \<le> early_stop_limit args"
    and n: "d < n"
    and plat: "\<forall>j\<le>d. projr (valid_batches g args vd
                 (epoch_weights g args td (weights (sess (self s))) (Suc j))) = c"
  shows "\<exists>s'. epochs g args td (Some vd) it n s = Stopped (it + d) s' \<and>
              sess (self s') =
                \<lparr>weights = epoch_weights g args td (weights (sess (self s))) (Suc d),
                 global_step = global_step (sess (self s)) + Suc d\<rparr> \<and>
              checkpoint (self s') = Some (sess (self s'))"
  using len lst d n plat
proof (induction d arbitrary: it n s)
  case 0
  obtain n' where n: "n = Suc n'" using "0.prems"(5) by (cases n) auto
  let ?w = "projr (train_batches g args td (weights (sess (self s))))"
  have v: "projr (valid_batches g args vd ?w) = c"
    using "0.prems"(6) [rule_format, of 0] by (simp add: epoch_weights_def)
  have c: "next_cnt args it (loss_hist s @ [c]) (patience_cnt s) = patience_cnt s + 1"
    using "0.prems"(1,2) th by (rule next_cnt_plateau)
  have gt: "patience_cnt s + 1 > early_stop_limit args" using "0.prems"(3,4) by simp
  show ?case
    unfolding n epochs.simps
      epoch_step [OF ok refl v [symmetric] c [symmetric] refl]
    using gt by (simp add: epoch_weights_def)
next
  case (Suc d)
  obtain n' where n: "n = Suc n'" "d < n'" using Suc.prems(5) by (cases n) auto
  let ?w = "projr (train_batches g args td (weights (sess (self s))))"
  let ?sn = "\<lparr>weights = ?w, global_step = global_step (sess (self s)) + 1\<rparr>"
  let ?s2 = "\<lparr>self = \<lparr>sess = ?sn, checkpoint = checkpoint (self s)\<rparr>,
              loss_hist = loss_hist s @ [c], patience_cnt = patience_cnt s + 1\<rparr>"
  have v: "projr (valid_batches g args vd ?w) = c"
    using Suc.prems(6) [rule_format, of 0] by (simp add: epoch_weights_def)
  have c: "next_cnt args it (loss_hist s @ [c]) (patience_cnt s) = patience_cnt s + 1"
    using Suc.prems(1,2) th by (rule next_cnt_plateau)
  have le: "\<not> patience_cnt s + 1 > early_stop_limit args" using Suc.prems(3,4) by simp
  have step: "epochs g args td (Some vd) it n s = epochs g args td (Some vd) (Suc it) n' ?s2"
    unfolding n epochs.simps
      epoch_step [OF ok refl v [symmetric] c [symmetric] refl]
    using le by simp
  have plat': "\<forall>j\<le>d. projr (valid_batches g args vd
                 (epoch_weights g args td (weights (sess (self ?s2))) (Suc j))) = c"
    using Suc.prems(6) by (simp add: epoch_weights_Suc)
  have "\<exists>s'. epochs g args td (Some vd) (Suc it) n' ?s2 = Stopped (Suc it + d) s' \<and>
              sess (self s') =
                \<lparr>weights = epoch_weights g args td (weights (sess (self ?s2))) (Suc d),
                 global_step = global_step (sess (self ?s2)) + Suc d\<rparr> \<and>
              checkpoint (self s') = Some (sess (self s'))"
    by (rule Suc.IH) (use Suc.prems n plat' in simp_all)
  then show ?case
    unfolding step by (simp add: epoch_weights_Suc)
qed

lemma session_eta: "\<lparr>weights = weights se, global_step = global_step se\<rparr> = se"
  by (cases se) simp

lemma prefix_runs:
  assumes ok: "0 < batch_size args" "vd \<noteq> []" "verbose args \<longrightarrow> td \<noteq> []"
    and cnt: "patience_cnt s \<le> early_stop_limit args"
    and k: "k \<le> n"
  shows "(\<exists>j<k. \<exists>s'. epochs g args td (Some vd) it n s = Stopped (it + j) s' \<and>
            sess (self s') =
              \<lparr>weights = epoch_weights g args td (weights (sess (self s))) (Suc j),
               global_step = global_step (sess (self s)) + Suc j\<rparr> \<and>
            checkpoint (self s') = Some (sess (self s'))) \<or>
         (\<exists>s'. epochs g args td (Some vd) it n s = epochs g args td (Some vd) (it + k) (n - k) s' \<and>
            loss_hist s' = loss_hist s @
              map (\<lambda>i. projr (valid_batches g args vd
                     (epoch_weights g args td (weights (sess (self s))) (Suc i)))) [0..<k] \<and>
            patience_cnt s' \<le> early_stop_limit args \<and>
            sess (self s') =
              \<lparr>weights = epoch_weights g args td (weights (sess (self s))) k,
               global_step = global_step (sess (self s)) + k\<rparr>)"
  using cnt k
proof (induction k arbitrary: it n s)
  case 0
  have "epochs g args td (Some vd) it n s = epochs g args td (Some vd) (it + 0) (n - 0) s \<and>
        loss_hist s = loss_hist s @
              map (\<lambda>i. projr (valid_batches g args vd
                     (epoch_weights g args td (weights (sess (self s))) (Suc i)))) [0..<0] \<and>
        patience_cnt s \<le> early_stop_limit args \<and>
        sess (self s) = \<lparr>weights = epoch_weights g args td (weights (sess (self s))) 0,
               global_step = global_step (sess (self s)) + 0\<rparr>"
    using "0.prems" by (simp add: epoch_weights_def session_eta)
  then show ?case by blast
next
  case (Suc k)
  obtain n' where n: "n = Suc n'" "k \<le> n'" using Suc.prems(2) by (cases n) auto
  let ?w = "projr (train_batches g args td (weights (sess (self s))))"
  let ?v = "projr (valid_batches g args vd ?w)"
  let ?c = "next_cnt args it (loss_hist s @ [?v]) (patience_cnt s)"
  let ?sn = "\<lparr>weights = ?w, global_step = global_step (sess (self s)) + 1\<rparr>"
  let ?s2 = "\<lparr>self = \<lparr>sess = ?sn, checkpoint = checkpoint (self s)\<rparr>,
              loss_hist = loss_hist s @ [?v], patience_cnt = ?c\<rparr>"
  note step = epoch_step [OF ok refl refl refl refl, where g = g and s = s and it = it]
  show ?case
  proof (cases "?c > early_stop_limit args")
    case True
    have "epochs g args td (Some vd) it n s =
            Stopped (it + 0) \<lparr>self = \<lparr>sess = ?sn, checkpoint = Some ?sn\<rparr>,
                  loss_hist = loss_hist s @ [?v], patience_cnt = ?c\<rparr>"
      unfolding n epochs.simps step using True by simp
    then have "\<exists>s'. epochs g args td (Some vd) it n s = Stopped (it + 0) s' \<and>
            sess (self s') =
              \<lparr>weights = epoch_weights g args td (weights (sess (self s))) (Suc 0),
               global_step = global_step (sess (self s)) + Suc 0\<rparr> \<and>
            checkpoint (self s') = Some (sess (self s'))"
      by (simp add: epoch_weights_def)
    then show ?thesis by blast
  next
    case False
    have e: "epochs g args td (Some vd) it n s = epochs g args td (Some vd) (Suc it) n' ?s2"
      unfolding n epochs.simps step using False by simp
    have c2: "patience_cnt ?s2 \<le> early_stop_limit args" using False by simp
    have v0: "?v = projr (valid_batches g args vd
                     (epoch_weights g args td (weights (sess (self s))) (Suc 0)))"
      by (simp add: epoch_weights_def)
    from Suc.IH [OF c2 n(2), of "Suc it"]
    show ?thesis
    proof (elim disjE exE conjE)
      fix j s'
      assume "j < k" "epochs g args td (Some vd) (Suc it) n' ?s2 = Stopped (Suc it + j) s'"
        "sess (self s') =
              \<lparr>weights = epoch_weights g args td (weights (sess (self ?s2))) (Suc j),
               global_step = global_step (sess (self ?s2)) + Suc j\<rparr>"
        "checkpoint (self s') = Some (sess (self s'))"
      then have "Suc j < Suc k \<and> epochs g args td (Some vd) it n s = Stopped (it + Suc j) s' \<and>
            sess (self s') =
              \<lparr>weights = epoch_weights g args td (weights (sess (self s))) (Suc (Suc j)),
               global_step = global_step (sess (self s)) + Suc (Suc j)\<rparr> \<and>
            checkpoint (self s') = Some (sess (self s'))"
        using e by (simp add: epoch_weights_Suc)
      then show ?thesis by blast
    next
      fix s'
      assume a: "epochs g args td (Some vd) (Suc it) n' ?s2 =
               epochs g args td (Some vd) (Suc it + k) (n' - k) s'"
        "loss_hist s' = loss_hist ?s2 @
              map (\<lambda>i. projr (valid_batches g args vd
                     (epoch_weights g args td (weights (sess (self ?s2))) (Suc i)))) [0..<k]"
        "patience_cnt s' \<le> early_stop_limit args"
        "sess (self s') =
              \<lparr>weights = epoch_weights g args td (weights (sess (self ?s2))) k,
               global_step = global_step (sess (self ?s2)) + k\<rparr>"
      have h: "loss_hist s' = loss_hist s @
              map (\<lambda>i. projr (valid_batches g args vd
                     (epoch_weights g args td (weights (sess (self s))) (Suc i)))) [0..<Suc k]"
        unfolding a(2) map_upt_Suc
        by (simp add: epoch_weights_Suc v0 [symmetric] del: upt_Suc)
      have "epochs g args td (Some vd) it n s =
               epochs g args td (Some vd) (it + Suc k) (n - Suc k) s' \<and>
            loss_hist s' = loss_hist s @
              map (\<lambda>i. projr (valid_batches g args vd
                     (epoch_weights g args td (weights (sess (self s))) (Suc i)))) [0..<Suc k] \<and>
            patience_cnt s' \<le> early_stop_limit args \<and>
            sess (self s') =
              \<lparr>weights = epoch_weights g args td (weights (sess (self s))) (Suc k),
               global_step = global_step (sess (self s)) + Suc k\<rparr>"
        using e a(1,3,4) h n by (simp add: epoch_weights_Suc)
      then show ?thesis by blast
    qed
  qed
qed

text \<open>
  Claim C8, as the code has it. \<open>RCVAEMultiTF.train\<close> with validation,
  \<open>early_stop_limit = 20\<close> and \<open>threshold = 0.0025\<close>: when the validation loss is constant
  over the 25 epochs \<open>p, \<dots>, p + 24\<close> (counted from \<open>0\<close>), the epoch loop breaks before it
  exhausts \<open>n_epochs\<close>, at an epoch \<open>it \<le> p + 21\<close>, that is no later than the 22nd epoch of
  the plateau; when the plateau starts with the first epoch, it breaks at its 21st epoch. The
  checkpoint that \<open>train\<close> leaves is the session at the point of stopping: the weights after
  \<open>it + 1\<close> epochs and the global step \<open>it + 1\<close>.
\<close>

theorem early_stopping_plateau:
  assumes "use_validation args" "valid_data args = Some vd" "vd \<noteq> []" "0 < batch_size args"
    and "td = (if shuffle args then shuffle_data (train_data args) else train_data args)"
    and "verbose args \<longrightarrow> td \<noteq> []"
    and "initial_run args"
    and "early_stop_limit args = 20" "threshold args = 25 / 10000"
    and "p + 25 \<le> n_epochs args"
    and "\<forall>k. p \<le> k \<and> k < p + 25 \<longrightarrow>
           epoch_valid_loss g args td vd (weights (sess m)) k = c"
  shows "\<exists>it s'.
           epochs g args td (Some vd) 0 (n_epochs args)
             \<lparr>self = m\<lparr>sess := (sess m)\<lparr>global_step := 0\<rparr>\<rparr>, loss_hist = [],
              patience_cnt = 0\<rparr> = Stopped it s' \<and>
           it \<le> p + 21 \<and> (p = 0 \<longrightarrow> it = 20) \<and> it + 1 < n_epochs args \<and>
           train_tf g shuffle_data m args = Returned (saver_save (self s')) \<and>
           sess (saver_save (self s')) =
             \<lparr>weights = epoch_weights g args td (weights (sess m)) (it + 1),
              global_step = it + 1\<rparr> \<and>
           checkpoint (saver_save (self s')) = Some (sess (saver_save (self s')))"
proof -
  let ?s0 = "\<lparr>self = m\<lparr>sess := (sess m)\<lparr>global_step := 0\<rparr>\<rparr>, loss_hist = [],
              patience_cnt = 0\<rparr>"
  let ?W = "epoch_weights g args td (weights (sess m))"
  let ?V = "\<lambda>w. projr (valid_batches g args vd w)"
  note ok = assms(4,3,6)
  have th: "0 \<le> threshold args" using assms(9) by simp
  have plat: "?V (?W (Suc k)) = c" if "p \<le> k" "k < p + 25" for k
    using assms(11) that by (simp add: epoch_valid_loss_def)
  have w0: "weights (sess (self ?s0)) = weights (sess m)" "global_step (sess (self ?s0)) = 0"
    by simp_all
  have key: "\<exists>it s'. epochs g args td (Some vd) 0 (n_epochs args) ?s0 = Stopped it s' \<and>
           it \<le> p + 21 \<and> (p = 0 \<longrightarrow> it = 20) \<and>
           sess (self s') = \<lparr>weights = ?W (Suc it), global_step = Suc it\<rparr> \<and>
           checkpoint (self s') = Some (sess (self s'))"
  proof (cases "p = 0")
    case True
    have "\<exists>s'. epochs g args td (Some vd) 0 (n_epochs args) ?s0 = Stopped (0 + 20) s' \<and>
              sess (self s') =
                \<lparr>weights = epoch_weights g args td (weights (sess (self ?s0))) (Suc 20),
                 global_step = global_step (sess (self ?s0)) + Suc 20\<rparr> \<and>
              checkpoint (self s') = Some (sess (self s'))"
    proof (rule plateau_stops [OF ok th, where c = c])
      show "\<forall>j\<le>20. projr (valid_batches g args vd
                 (epoch_weights g args td (weights (sess (self ?s0))) (Suc j))) = c"
        unfolding w0 using plat True by simp
    qed (use assms(8,10) in simp_all)
    then show ?thesis using True unfolding w0 by auto
  next
    case False
    have c0: "patience_cnt ?s0 \<le> early_stop_limit args" by simp
    have kn: "p + 1 \<le> n_epochs args" using assms(10) by simp
    from prefix_runs [OF ok c0 kn, of g 0]
    show ?thesis
    proof (elim disjE exE conjE)
      fix j s'
      assume "j < p + 1" "epochs g args td (Some vd) 0 (n_epochs args) ?s0 = Stopped (0 + j) s'"
        "sess (self s') =
              \<lparr>weights = epoch_weights g args td (weights (sess (self ?s0))) (Suc j),
               global_step = global_step (sess (self ?s0)) + Suc j\<rparr>"
        "checkpoint (self s') = Some (sess (self s'))"
      then have "epochs g args td (Some vd) 0 (n_epochs args) ?s0 = Stopped j s' \<and>
           j \<le> p + 21 \<and> (p = 0 \<longrightarrow> j = 20) \<and>
           sess (self s') = \<lparr>weights = ?W (Suc j), global_step = Suc j\<rparr> \<and>
           checkpoint (self s') = Some (sess (self s'))"
        using False by simp
      then show ?thesis by blast
    next
      fix s1
      assume a: "epochs g args td (Some vd) 0 (n_epochs args) ?s0 =
               epochs g args td (Some vd) (0 + (p + 1)) (n_epochs args - (p + 1)) s1"
        "loss_hist s1 = loss_hist ?s0 @
              map (\<lambda>i. projr (valid_batches g args vd
                     (epoch_weights g args td (weights (sess (self ?s0))) (Suc i)))) [0..<p + 1]"
        "patience_cnt s1 \<le> early_stop_limit args"
        "sess (self s1) =
              \<lparr>weights = epoch_weights g args td (weights (sess (self ?s0))) (p + 1),
               global_step = global_step (sess (self ?s0)) + (p + 1)\<rparr>"
      let ?d = "early_stop_limit args - patience_cnt s1"
      have len: "length (loss_hist s1) = p + 1" using a(2) by simp
      have lst: "p + 1 = 0 \<or> last (loss_hist s1) = c"
        using a(2) plat [of p] by simp
      have dn: "?d < n_epochs args - (p + 1)" using assms(8,10) by simp
      have w1: "weights (sess (self s1)) = ?W (p + 1)" "global_step (sess (self s1)) = p + 1"
        using a(4) by simp_all
      have pl: "\<forall>j\<le>?d. projr (valid_batches g args vd
                 (epoch_weights g args td (weights (sess (self s1))) (Suc j))) = c"
      proof (intro allI impI)
        fix j assume "j \<le> ?d"
        then have "j \<le> 20" using assms(8) by simp
        then have "?V (?W (Suc (j + (p + 1)))) = c" by (intro plat) simp_all
        then show "projr (valid_batches g args vd
                 (epoch_weights g args td (weights (sess (self s1))) (Suc j))) = c"
          unfolding w1 epoch_weights_add by simp
      qed
      from plateau_stops [OF ok th len lst refl a(3) dn pl]
      obtain s' where s': "epochs g args td (Some vd) (p + 1) (n_epochs args - (p + 1)) s1 =
            Stopped (p + 1 + ?d) s'"
        "sess (self s') =
                \<lparr>weights = epoch_weights g args td (weights (sess (self s1))) (Suc ?d),
                 global_step = global_step (sess (self s1)) + Suc ?d\<rparr>"
        "checkpoint (self s') = Some (sess (self s'))"
        by blast
      have "epochs g args td (Some vd) 0 (n_epochs args) ?s0 = Stopped (p + 1 + ?d) s' \<and>
           p + 1 + ?d \<le> p + 21 \<and> (p = 0 \<longrightarrow> p + 1 + ?d = 20) \<and>
           sess (self s') = \<lparr>weights = ?W (Suc (p + 1 + ?d)), global_step = Suc (p + 1 + ?d)\<rparr> \<and>
           checkpoint (self s') = Some (sess (self s'))"
        using a(1) s' False assms(8) unfolding w1 epoch_weights_add
        by (simp add: add.commute add.left_commute)
      then show ?thesis by blast
    qed
  qed
  then obtain it s' where r: "epochs g args td (Some vd) 0 (n_epochs args) ?s0 = Stopped it s'"
    "it \<le> p + 21" "p = 0 \<longrightarrow> it = 20"
    "sess (self s') = \<lparr>weights = ?W (Suc it), global_step = Suc it\<rparr>"
    "checkpoint (self s') = Some (sess (self s'))"
    by blast
  have tr: "train_tf g shuffle_data m args = Returned (saver_save (self s'))"
    using assms(1,2,7) r(1) unfolding train_tf_def Let_def assms(5) [symmetric]
    by simp
  have "it + 1 < n_epochs args" using r(2) assms(10) by simp
  then show ?thesis
    using r tr by (auto simp: saver_save_def)
qed

lemma plateau_train: "projr (train_batches plateau_graph plateau_args [()] w) = Suc w"
  by (simp add: train_batches_def range_step_def mini_batch_def plateau_graph_def
      plateau_args_def)

lemma plateau_valid:
  "projr (valid_batches plateau_graph plateau_args [()] w) = (if w = 1 then 1 else 1 / 2)"
  by (simp add: valid_batches_def range_step_def mini_batch_def plateau_graph_def
      plateau_args_def)

lemma plateau_weights: "epoch_weights plateau_graph plateau_args [()] w k = w + k"
  by (induction k) (simp_all add: epoch_weights_def plateau_train)

lemma plateau_losses:
  "epoch_valid_loss plateau_graph plateau_args [()] [()] 0 k = (if k = 0 then 1 else 1 / 2)"
  by (simp add: epoch_valid_loss_def plateau_weights plateau_valid)

lemma plateau_ok:
  "0 < batch_size plateau_args" "[()] \<noteq> ([] :: unit list)"
  "verbose plateau_args \<longrightarrow> [()] \<noteq> ([] :: unit list)"
  by (simp_all add: plateau_args_def)

theorem early_stopping_plateau_witness:
  "\<exists>it s'.
     epochs plateau_graph plateau_args [()] (Some [()]) 0 (n_epochs plateau_args)
       \<lparr>self = plateau_model\<lparr>sess := (sess plateau_model)\<lparr>global_step := 0\<rparr>\<rparr>,
        loss_hist = [], patience_cnt = 0\<rparr> = Stopped it s' \<and>
     it \<le> 1 + 21 \<and> it + 1 < n_epochs plateau_args \<and>
     train_tf plateau_graph (\<lambda>d. d) plateau_model plateau_args =
       Returned (saver_save (self s')) \<and>
     checkpoint (saver_save (self s')) = Some (sess (saver_save (self s')))"
proof -
  have h: "use_validation plateau_args" "valid_data plateau_args = Some [()]"
    "[()] = (if shuffle plateau_args then (\<lambda>d. d) (train_data plateau_args)
             else train_data plateau_args)"
    "initial_run plateau_args" "early_stop_limit plateau_args = 20"
    "threshold plateau_args = 25 / 10000" "1 + 25 \<le> n_epochs plateau_args"
    by (simp_all add: plateau_args_def)
  have p: "\<forall>k. 1 \<le> k \<and> k < 1 + 25 \<longrightarrow>
      epoch_valid_loss plateau_graph plateau_args [()] [()] (weights (sess plateau_model)) k
        = 1 / 2"
    by (simp add: plateau_losses plateau_model_def)
  from early_stopping_plateau [where shuffle_data = "\<lambda>d. d" and g = plateau_graph
      and m = plateau_model and p = 1, OF h(1,2) plateau_ok(2,1) h(3) plateau_ok(3) h(4-7) p]
  show ?thesis by blast
qed

text \<open>
  The example run: the loss is \<open>1 / 2\<close> in the 25 epochs \<open>1, \<dots>, 25\<close>, after an improvement
  from \<open>1\<close> that resets the counter in epoch \<open>1\<close>. The loop breaks in epoch \<open>22\<close>, the 22nd
  epoch of the plateau, not by its 21st, which is epoch \<open>1 + 20\<close>.
\<close>

theorem early_stopping_plateau_counterexample:
  "list_all (\<lambda>k. epoch_valid_loss plateau_graph plateau_args [()] [()]
                    (weights (sess plateau_model)) k = 1 / 2) [1..<26] \<and>
   (\<exists>s'. epochs plateau_graph plateau_args [()] (Some [()]) 0 (n_epochs plateau_args)
       \<lparr>self = plateau_model\<lparr>sess := (sess plateau_model)\<lparr>global_step := 0\<rparr>\<rparr>,
        loss_hist = [], patience_cnt = 0\<rparr> = Stopped 22 s') \<and>
   \<not> (22 \<le> (1 :: nat) + 20)"
proof -
  let ?g = plateau_graph and ?a = plateau_args
  let ?s0 = "\<lparr>self = \<lparr>sess = \<lparr>weights = 0 :: nat, global_step = 0\<rparr>, checkpoint = None\<rparr>,
              loss_hist = [], patience_cnt = 0\<rparr>"
  let ?s1 = "\<lparr>self = \<lparr>sess = \<lparr>weights = Suc 0, global_step = Suc 0\<rparr>, checkpoint = None\<rparr>,
              loss_hist = [1], patience_cnt = Suc 0\<rparr>"
  let ?s2 = "\<lparr>self = \<lparr>sess = \<lparr>weights = Suc (Suc 0), global_step = Suc (Suc 0)\<rparr>,
                      checkpoint = None\<rparr>,
              loss_hist = [1, 1 / 2], patience_cnt = 0\<rparr>"
  have lim: "early_stop_limit ?a = 20" "threshold ?a = 25 / 10000" "n_epochs ?a = Suc (Suc 24)"
    by (simp_all add: plateau_args_def)
  have b0: "epoch_body ?g ?a [()] (Some [()]) 0 ?s0 = Continue ?s1"
    unfolding epoch_step [OF plateau_ok refl refl refl refl, where g = ?g and s = ?s0 and it = 0]
    by (simp add: plateau_train plateau_valid next_cnt_def lim)
  have b1: "epoch_body ?g ?a [()] (Some [()]) (Suc 0) ?s1 = Continue ?s2"
    unfolding epoch_step [OF plateau_ok refl refl refl refl, where g = ?g and s = ?s1
        and it = "Suc 0"]
    by (simp add: plateau_train plateau_valid next_cnt_def lim)
  have e: "epochs ?g ?a [()] (Some [()]) 0 (n_epochs ?a) ?s0 =
             epochs ?g ?a [()] (Some [()]) (Suc (Suc 0)) 24 ?s2"
  proof -
    have "epochs ?g ?a [()] (Some [()]) 0 (Suc (Suc 24)) ?s0 =
            epochs ?g ?a [()] (Some [()]) (Suc 0) (Suc 24) ?s1"
      by (simp only: epochs.simps b0 step.case)
    also have "\<dots> = epochs ?g ?a [()] (Some [()]) (Suc (Suc 0)) 24 ?s2"
      by (simp only: epochs.simps b1 step.case)
    finally show ?thesis by (simp only: lim(3))
  qed
  have th: "0 \<le> threshold ?a" by (simp add: lim)
  have "\<exists>s'. epochs ?g ?a [()] (Some [()]) (Suc (Suc 0)) 24 ?s2 =
              Stopped (Suc (Suc 0) + 20) s' \<and>
              sess (self s') =
                \<lparr>weights = epoch_weights ?g ?a [()] (weights (sess (self ?s2))) (Suc 20),
                 global_step = global_step (sess (self ?s2)) + Suc 20\<rparr> \<and>
              checkpoint (self s') = Some (sess (self s'))"
    by (rule plateau_stops [OF plateau_ok th, where c = "1 / 2"])
       (simp_all add: lim plateau_weights plateau_valid)
  then have "\<exists>s'. epochs ?g ?a [()] (Some [()]) 0 (n_epochs ?a)
       \<lparr>self = plateau_model\<lparr>sess := (sess plateau_model)\<lparr>global_step := 0\<rparr>\<rparr>,
        loss_hist = [], patience_cnt = 0\<rparr> = Stopped 22 s'"
    using e by (auto simp: plateau_model_def)
  moreover have "list_all (\<lambda>k. epoch_valid_loss ?g ?a [()] [()]
                    (weights (sess plateau_model)) k = 1 / 2) [1..<26]"
    by (simp add: plateau_losses plateau_model_def list_all_iff)
  ultimately show ?thesis by simp
qed

section \<open>Validation without validation data\<close>

lemma epoch_body_raises:
  assumes "epoch_body g args td vd it s = Raise e s'"
  shows "e = ValueError \<or> e = ZeroDivisionError"
proof -
  have r: "range_step a b = Inl x \<Longrightarrow> x = ValueError" for a b x
    by (auto simp: range_step_def split: if_splits)
  have t: "train_batches g args td w = Inl x \<Longrightarrow> x = ValueError" for w x
    by (auto simp: train_batches_def dest: r split: sum.splits)
  have v: "valid_batches g args vdata w = Inl x \<Longrightarrow> x = ValueError \<or> x = ZeroDivisionError"
    for vdata w x
    by (auto simp: valid_batches_def Let_def dest: r split: sum.splits if_splits)
  have es: "early_stopping args td it u s0 = Raise x s1 \<Longrightarrow> x = ZeroDivisionError"
    for u s0 x s1
    by (auto simp: early_stopping_def Let_def split: if_splits)
  show ?thesis
    using assms
    by (auto simp: epoch_body_def Let_def dest: t v es split: sum.splits option.splits if_splits)
qed

lemma epochs_fails:
  "epochs g args td vd it n s = Failed e s' \<Longrightarrow> e = ValueError \<or> e = ZeroDivisionError"
proof (induction n arbitrary: it s)
  case 0
  then show ?case by simp
next
  case (Suc n)
  then show ?case
    by (auto split: step.splits dest: epoch_body_raises)
qed

text \<open>
  Claim C9, as the code has it. \<open>RCVAE.train\<close> with \<open>use_validation=True\<close> and no validation
  data raises at once and leaves the object and the files as they were; in every other case
  it does not raise this exception. \<open>RCVAEMultiTF.train\<close> makes the check after the set-up of
  the call and before the first epoch, so no optimizer step has run: with \<open>initial_run=True\<close>
  the exception comes with the weights unchanged and the global step reset to \<open>0\<close>; with
  \<open>initial_run=False\<close> the session has first been restored from the checkpoint, and without a
  checkpoint the restore raises instead. When \<open>use_validation\<close> is false or validation data is
  given, \<open>RCVAEMultiTF.train\<close> never raises this exception.
\<close>

theorem valid_data_required:
  "train fit shuffle_data st data True None n sh save = Raised ValidDataException st \<and>
   (\<not> (uv \<and> vdo = None) \<longrightarrow>
      (\<exists>st'. train fit shuffle_data st data uv vdo n sh save = Returned st')) \<and>
   (use_validation args \<and> valid_data args = None \<longrightarrow>
      (initial_run args \<longrightarrow>
         train_tf g shuffle_list m args =
           Raised ValidDataException (m\<lparr>sess := (sess m)\<lparr>global_step := 0\<rparr>\<rparr>)) \<and>
      (\<not> initial_run args \<longrightarrow>
         train_tf g shuffle_list m args =
           (case checkpoint m of
              None \<Rightarrow> Raised NotFoundError m
            | Some c \<Rightarrow> Raised ValidDataException (m\<lparr>sess := c\<rparr>)))) \<and>
   (\<not> (use_validation args \<and> valid_data args = None) \<longrightarrow>
      (\<forall>m'. train_tf g shuffle_list m args \<noteq> Raised ValidDataException m'))"
proof (intro conjI impI allI)
  show "train fit shuffle_data st data True None n sh save = Raised ValidDataException st"
    by (simp add: train_def)
next
  assume "\<not> (uv \<and> vdo = None)"
  then show "\<exists>st'. train fit shuffle_data st data uv vdo n sh save = Returned st'"
    by (auto simp: train_def Let_def)
next
  assume "use_validation args \<and> valid_data args = None" "initial_run args"
  then show "train_tf g shuffle_list m args =
           Raised ValidDataException (m\<lparr>sess := (sess m)\<lparr>global_step := 0\<rparr>\<rparr>)"
    by (simp add: train_tf_def Let_def)
next
  assume "use_validation args \<and> valid_data args = None" "\<not> initial_run args"
  then show "train_tf g shuffle_list m args =
           (case checkpoint m of
              None \<Rightarrow> Raised NotFoundError m
            | Some c \<Rightarrow> Raised ValidDataException (m\<lparr>sess := c\<rparr>))"
    by (simp add: train_tf_def Let_def saver_restore_def split: option.splits)
next
  fix m'
  assume a: "\<not> (use_validation args \<and> valid_data args = None)"
  show "train_tf g shuffle_list m args \<noteq> Raised ValidDataException m'"
  proof
    assume r: "train_tf g shuffle_list m args = Raised ValidDataException m'"
    then show False
      using a
      by (auto simp: train_tf_def Let_def saver_restore_def
          split: if_splits sum.splits option.splits loop_end.splits dest: epochs_fails)
  qed
qed

theorem valid_data_required_witness:
  "train (\<lambda>d v n obj. obj) (\<lambda>d. d) (dense_model, Map.empty) () True None 25 True True =
     Raised ValidDataException (dense_model, Map.empty) \<and>
   (\<exists>st'. train (\<lambda>d v n obj. obj) (\<lambda>d. d) (dense_model, Map.empty) () False None 25 True True =
      Returned st') \<and>
   train_tf counting_graph (\<lambda>d. d) trained_model (unvalidated_args True) =
     Raised ValidDataException
       \<lparr>sess = \<lparr>weights = 0, global_step = 0\<rparr>,
        checkpoint = Some \<lparr>weights = 1, global_step = 5\<rparr>\<rparr> \<and>
   train_tf counting_graph (\<lambda>d. d) trained_model (unvalidated_args False) =
     Raised ValidDataException
       \<lparr>sess = \<lparr>weights = 1, global_step = 5\<rparr>,
        checkpoint = Some \<lparr>weights = 1, global_step = 5\<rparr>\<rparr> \<and>
   (\<forall>m'. train_tf counting_graph (\<lambda>d. d) trained_model
            ((unvalidated_args True)\<lparr>use_validation := False\<rparr>) \<noteq>
          Raised ValidDataException m')"
proof -
  note t1 = valid_data_required [where fit = "\<lambda>d v n obj. obj" and shuffle_data = "\<lambda>d. d"
      and st = "(dense_model, Map.empty)" and data = "()" and n = 25 and sh = True
      and save = True and uv = False and vdo = None and g = counting_graph
      and shuffle_list = "\<lambda>d. d" and m = trained_model and args = "unvalidated_args True"]
  note t2 = valid_data_required [where fit = "\<lambda>d v n obj. obj" and shuffle_data = "\<lambda>d. d"
      and st = "(dense_model, Map.empty)" and data = "()" and n = 25 and sh = True
      and save = True and uv = False and vdo = None and g = counting_graph
      and shuffle_list = "\<lambda>d. d" and m = trained_model and args = "unvalidated_args False"]
  note t3 = valid_data_required [where fit = "\<lambda>d v n obj. obj" and shuffle_data = "\<lambda>d. d"
      and st = "(dense_model, Map.empty)" and data = "()" and n = 25 and sh = True
      and save = True and uv = False and vdo = None and g = counting_graph
      and shuffle_list = "\<lambda>d. d" and m = trained_model
      and args = "(unvalidated_args True)\<lparr>use_validation := False\<rparr>"]
  show ?thesis
    using t1 t2 t3
    by (simp add: unvalidated_args_def trained_model_def)
qed

text \<open>
  A resumed run (\<open>initial_run=False\<close>) of the multi-condition model: when the exception is
  raised the weights are those of the checkpoint, not those the object had.
\<close>

theorem valid_data_state_counterexample:
  "train_tf counting_graph (\<lambda>d. d) trained_model (unvalidated_args False) =
     Raised ValidDataException
       \<lparr>sess = \<lparr>weights = 1, global_step = 5\<rparr>,
        checkpoint = Some \<lparr>weights = 1, global_step = 5\<rparr>\<rparr> \<and>
   weights (sess trained_model) = 0 \<and>
   train_tf counting_graph (\<lambda>d. d) trained_model (unvalidated_args False) \<noteq>
     Raised ValidDataException trained_model"
  by (simp add: train_tf_def Let_def saver_restore_def unvalidated_args_def trained_model_def)

end
